theory Spec2Isabelle
  imports Complex_Main "HOL-Library.Word"
begin

section \<open>Values of the platform\<close>

text \<open>
  A \<open>Buffer\<close> is a sequence of bytes. \<open>Buffer.concat\<close> is list concatenation.
\<close>

type_synonym Buffer = "8 word list"

text \<open>
  A JavaScript \<open>number\<close> is an IEEE double: a finite value, \<open>NaN\<close>, or one of the two
  infinities. The encoders below only compare a number with a constant and test whether it
  is an integer; they never compute in floating point. The finite values are therefore
  taken from \<open>real\<close>, of which the doubles are a subset. A \<open>bigint\<close> is an \<open>int\<close>.
\<close>

datatype number = Finite real | NaN | PosInfinity | NegInfinity

text \<open>\<open>value > c\<close> and \<open>value < c\<close> on numbers: every comparison with \<open>NaN\<close> is false.\<close>

fun number_gt :: "number \<Rightarrow> real \<Rightarrow> bool" where
  "number_gt (Finite r) c = (r > c)"
| "number_gt NaN c = False"
| "number_gt PosInfinity c = True"
| "number_gt NegInfinity c = False"

fun number_lt :: "number \<Rightarrow> real \<Rightarrow> bool" where
  "number_lt (Finite r) c = (r < c)"
| "number_lt NaN c = False"
| "number_lt PosInfinity c = False"
| "number_lt NegInfinity c = True"

text \<open>\<open>Number.isInteger\<close>: a finite value without fractional part.\<close>

fun Number_isInteger :: "number \<Rightarrow> bool" where
  "Number_isInteger (Finite r) = (of_int \<lfloor>r\<rfloor> = r)"
| "Number_isInteger NaN = False"
| "Number_isInteger PosInfinity = False"
| "Number_isInteger NegInfinity = False"

text \<open>
  The conversion a typed array or a \<open>DataView\<close> applies to a number it stores in \<open>w\<close>
  bits (\<open>ToUint8\<close>, \<open>ToUint16\<close>, \<open>ToUint32\<close>): truncate towards zero, then reduce
  modulo \<open>2 ^ w\<close>; \<open>NaN\<close> and the infinities become 0.
\<close>

fun ToUint :: "nat \<Rightarrow> number \<Rightarrow> nat" where
  "ToUint w (Finite r) = nat ((if r < 0 then \<lceil>r\<rceil> else \<lfloor>r\<rfloor>) mod 2 ^ w)"
| "ToUint w NaN = 0"
| "ToUint w PosInfinity = 0"
| "ToUint w NegInfinity = 0"

text \<open>
  The errors the code throws, by JavaScript class, each with its message. Where the source
  appends the offending value to the message, the model keeps the fixed part only.
\<close>

datatype error = Error string | RangeError string | TypeError string

text \<open>Sequencing of computations that may throw: the first error ends the computation.\<close>

fun bind :: "error + 'a \<Rightarrow> ('a \<Rightarrow> error + 'b) \<Rightarrow> error + 'b" where
  "bind (Inl e) f = Inl e"
| "bind (Inr a) f = f a"

section \<open>Fixed-width encoders (serializationHelpers)\<close>

text \<open>
  What \<open>DataView.setUint16\<close>, \<open>setUint32\<close> and \<open>setBigUint64\<close> with
  \<open>littleEndian = false\<close> write for a non-negative integer \<open>v\<close>: its \<open>n\<close> low bytes,
  the most significant one first.
\<close>

fun bigEndian :: "nat \<Rightarrow> nat \<Rightarrow> Buffer" where
  "bigEndian 0 v = []"
| "bigEndian (Suc n) v = of_nat (v div 256 ^ n) # bigEndian n v"

definition msg_word64 :: string where
  "msg_word64 = ''The input has to be a 64 bit unsigned integer but it was: ''"

definition msg_word32 :: string where
  "msg_word32 = ''The input has to be a 32 bit unsigned integer but it was: ''"

definition msg_word16 :: string where
  "msg_word16 = ''The input has to be a 16 bit unsigned integer but it was: ''"

definition encodeWord64 :: "int \<Rightarrow> error + Buffer" where
  "encodeWord64 v =
     (if v > 9223372036854775807 \<or> v < 0 then Inl (Error msg_word64)
      else Inr (bigEndian 8 (nat (v mod 2 ^ 64))))"

definition encodeWord32 :: "number \<Rightarrow> error + Buffer" where
  "encodeWord32 v =
     (if number_gt v 4294967295 \<or> number_lt v 0 \<or> \<not> Number_isInteger v
      then Inl (Error msg_word32)
      else Inr (bigEndian 4 (ToUint 32 v)))"

definition encodeWord16 :: "number \<Rightarrow> error + Buffer" where
  "encodeWord16 v =
     (if number_gt v 65535 \<or> number_lt v 0 \<or> \<not> Number_isInteger v
      then Inl (Error msg_word16)
      else Inr (bigEndian 2 (ToUint 16 v)))"

text \<open>The message of \<open>encodeWord8\<close> is the one of \<open>encodeWord16\<close> in the source.\<close>

definition encodeWord8 :: "number \<Rightarrow> error + Buffer" where
  "encodeWord8 v =
     (if number_gt v 255 \<or> number_lt v 0 \<or> \<not> Number_isInteger v
      then Inl (Error msg_word16)
      else Inr [of_nat (ToUint 8 v)])"

text \<open>
  A property key. The keys of a JavaScript object are strings; those of the signature maps
  are the canonical decimal strings of non-negative integers (credential and key indices).
  Such a key is modelled by the integer it denotes. \<open>Number(key)\<close> reads it back
  (rounded to a double from \<open>2 ^ 53\<close> on, which \<open>encodeWord8\<close> rejects like the
  integer itself).
\<close>

type_synonym key = nat

definition Number_js :: "key \<Rightarrow> number" where
  "Number_js k = Finite (real k)"

definition encodeWord8FromString :: "key \<Rightarrow> error + Buffer" where
  "encodeWord8FromString v = encodeWord8 (Number_js v)"

section \<open>Objects used as maps\<close>

text \<open>
  An object is the list of its properties in the order in which they were created; its
  keys are distinct. \<open>Object.keys\<close> does not return them in that order: the keys that
  are array indices (integers below \<open>2 ^ 32 - 1\<close>) come first, in ascending numeric
  order, and the other keys follow in creation order.
\<close>

type_synonym 'v object = "(key \<times> 'v) list"

definition isArrayIndex :: "key \<Rightarrow> bool" where
  "isArrayIndex k \<longleftrightarrow> k < 4294967295"

definition Object_keys :: "'v object \<Rightarrow> key list" where
  "Object_keys m =
     sort (filter isArrayIndex (map fst m)) @ filter (\<lambda>k. \<not> isArrayIndex k) (map fst m)"

text \<open>
  The loop \<open>keys.forEach\<close> of \<open>serializeMap\<close>, pushing two buffers per key. The keys
  come from the object itself, so \<open>map[key]\<close> is always defined; the branch for a missing
  property is there to make the function total.
\<close>

fun forEach_push ::
  "'v object \<Rightarrow> (key \<Rightarrow> error + Buffer) \<Rightarrow> ('v \<Rightarrow> error + Buffer) \<Rightarrow>
   key list \<Rightarrow> Buffer list \<Rightarrow> error + Buffer list" where
  "forEach_push m encodeKey encodeValue [] buffers = Inr buffers"
| "forEach_push m encodeKey encodeValue (k # keys) buffers =
     bind (encodeKey k) (\<lambda>kb.
     bind (case map_of m k of
             Some t \<Rightarrow> encodeValue t
           | None \<Rightarrow> Inl (TypeError ''undefined'')) (\<lambda>vb.
     forEach_push m encodeKey encodeValue keys (buffers @ [kb, vb])))"

definition serializeMap ::
  "'v object \<Rightarrow> (number \<Rightarrow> error + Buffer) \<Rightarrow> (key \<Rightarrow> error + Buffer) \<Rightarrow>
   ('v \<Rightarrow> error + Buffer) \<Rightarrow> error + Buffer" where
  "serializeMap m encodeSize encodeKey encodeValue =
     (let keys = Object_keys m in
      bind (encodeSize (Finite (real (length keys)))) (\<lambda>size_buf.
      bind (forEach_push m encodeKey encodeValue keys [size_buf]) (\<lambda>buffers.
      Inr (concat buffers))))"

section \<open>Hexadecimal strings (package buffer)\<close>

text \<open>
  Both modules import \<open>Buffer\<close> from \<open>'buffer/'\<close>, the package \<open>buffer\<close> of the
  dependencies (version 6), not the built-in of the platform. Its
  \<open>Buffer.from(string, 'hex')\<close> allocates \<open>string.length >>> 1\<close> bytes and fills
  them with \<open>hexWrite\<close>:
  \<^verbatim>\<open>
  for (i = 0; i < length; ++i) {
    const parsed = parseInt(string.substr(i * 2, 2), 16)
    if (numberIsNaN(parsed)) return i
    buf[offset + i] = parsed
  }
  return i
  \<close>
  and keeps the bytes written. A string is a list of code units; the model has those
  below 256.
\<close>

definition hexDigitValue :: "char \<Rightarrow> nat option" where
  "hexDigitValue c =
     (let n = (of_char c :: nat) in
      if 48 \<le> n \<and> n \<le> 57 then Some (n - 48)
      else if 97 \<le> n \<and> n \<le> 102 then Some (n - 87)
      else if 65 \<le> n \<and> n \<le> 70 then Some (n - 55)
      else None)"

definition isHexDigit :: "char \<Rightarrow> bool" where
  "isHexDigit c \<longleftrightarrow> hexDigitValue c \<noteq> None"

text \<open>The white space \<open>parseInt\<close> skips: TAB, LF, VT, FF, CR, SP and NBSP.\<close>

definition isWhiteSpace :: "char \<Rightarrow> bool" where
  "isWhiteSpace c \<longleftrightarrow> (of_char c :: nat) \<in> {9, 10, 11, 12, 13, 32, 160}"

definition hexValue :: "string \<Rightarrow> nat" where
  "hexValue Z = foldl (\<lambda>a c. 16 * a + (case hexDigitValue c of Some d \<Rightarrow> d | None \<Rightarrow> 0)) 0 Z"

text \<open>
  \<open>parseInt(string, 16)\<close>: skip leading white space, read a sign, skip \<open>0x\<close> or
  \<open>0X\<close>, and read hexadecimal digits up to the first other character. \<open>None\<close> is
  \<open>NaN\<close>: no digit was read.
\<close>

definition parseInt16 :: "string \<Rightarrow> int option" where
  "parseInt16 inputString =
     (let S = dropWhile isWhiteSpace inputString;
          sign = (if S \<noteq> [] \<and> hd S = CHR ''-'' then - 1 else 1);
          S = (if S \<noteq> [] \<and> (hd S = CHR ''+'' \<or> hd S = CHR ''-'') then tl S else S);
          S = (if 2 \<le> length S \<and> (take 2 S = ''0x'' \<or> take 2 S = ''0X'') then drop 2 S else S);
          Z = takeWhile isHexDigit S
      in if Z = [] then None else Some (sign * int (hexValue Z)))"

text \<open>
  \<open>hexWrite\<close> with \<open>n\<close> bytes left to write from the string \<open>s\<close>. Storing \<open>parsed\<close>
  in the byte array reduces it modulo 256.
\<close>

fun hexWrite :: "string \<Rightarrow> nat \<Rightarrow> Buffer" where
  "hexWrite s 0 = []"
| "hexWrite s (Suc n) =
     (case parseInt16 (take 2 s) of
        None \<Rightarrow> []
      | Some parsed \<Rightarrow> word_of_int parsed # hexWrite (drop 2 s) n)"

definition Buffer_from_hex :: "string \<Rightarrow> Buffer" where
  "Buffer_from_hex s = hexWrite s (length s div 2)"

text \<open>\<open>buf.toString('hex')\<close>: two lower-case digits per byte.\<close>

definition hexChar :: "nat \<Rightarrow> char" where
  "hexChar n = ''0123456789abcdef'' ! n"

definition toString_hex :: "Buffer \<Rightarrow> string" where
  "toString_hex buf = concat (map (\<lambda>b. [hexChar (unat b div 16), hexChar (unat b mod 16)]) buf)"

text \<open>
  \<open>length.writeUInt16BE(value, 0)\<close> on a fresh buffer of two bytes: the package checks
  the value against \<open>0xffff\<close> and throws a \<open>RangeError\<close> above it.
\<close>

definition msg_out_of_bounds :: string where
  "msg_out_of_bounds = CHR 0x22 # ''value'' @ CHR 0x22 # '' argument is out of bounds''"

definition writeUInt16BE :: "nat \<Rightarrow> error + Buffer" where
  "writeUInt16BE v =
     (if v > 65535 then Inl (RangeError msg_out_of_bounds)
      else Inr [of_nat (v div 256), of_nat v])"

section \<open>Signatures (serialization)\<close>

type_synonym CredentialSignature = "string object"
type_synonym AccountTransactionSignature = "CredentialSignature object"

definition putSignature :: "string \<Rightarrow> error + Buffer" where
  "putSignature signature =
     (let signatureBytes = Buffer_from_hex signature in
      bind (writeUInt16BE (length signatureBytes)) (\<lambda>len.
      Inr (len @ signatureBytes)))"

definition putCredentialSignatures :: "CredentialSignature \<Rightarrow> error + Buffer" where
  "putCredentialSignatures credSig =
     serializeMap credSig encodeWord8 encodeWord8FromString putSignature"

definition msg_no_signatures :: string where
  "msg_no_signatures = ''No signatures were provided''"

definition serializeAccountTransactionSignature ::
  "AccountTransactionSignature \<Rightarrow> error + Buffer" where
  "serializeAccountTransactionSignature signatures =
     (if length (Object_keys signatures) = 0 then Inl (Error msg_no_signatures)
      else serializeMap signatures encodeWord8 encodeWord8FromString putCredentialSignatures)"

section \<open>Transactions (serialization)\<close>

text \<open>
  A transaction type is a member of a numeric enum. \<open>Uint8Array.of(type)\<close> stores it in
  one byte, reduced modulo 256.
\<close>

definition serializeAccountTransactionType :: "nat \<Rightarrow> Buffer" where
  "serializeAccountTransactionType t = [of_nat t]"

record AccountAddress =
  decodedAddress :: Buffer

record TransactionExpiry =
  expiryEpochSeconds :: int

record AccountTransactionHeader =
  sender :: AccountAddress
  nonce :: int
  expiry :: TransactionExpiry

record 'p AccountTransaction =
  header :: AccountTransactionHeader
  type :: nat
  payload :: 'p

text \<open>
  The modules \<open>accountTransactions\<close>, \<open>energyCost\<close>, \<open>util\<close>, \<open>hash\<close> and
  \<open>types\<close> are used by the serialization and are parameters of the model: the handler
  of a transaction type (the lookup and the payload serialization may throw), the energy
  cost, the number of signatures of a signature map, the hash of a sequence of buffers,
  and the tag \<open>BlockItemKind.AccountTransactionKind\<close>.
\<close>

record 'p AccountTransactionHandler =
  serialize :: "'p \<Rightarrow> error + Buffer"
  getBaseEnergyCost :: "'p \<Rightarrow> int"

record 'p collaborators =
  AccountTransactionKind :: nat
  getAccountTransactionHandler :: "nat \<Rightarrow> error + 'p AccountTransactionHandler"
  calculateEnergyCost :: "int \<Rightarrow> int \<Rightarrow> int \<Rightarrow> int"
  countSignatures :: "AccountTransactionSignature \<Rightarrow> int"
  sha256 :: "Buffer list \<Rightarrow> Buffer"

definition serializeAccountTransactionHeader ::
  "AccountTransactionHeader \<Rightarrow> nat \<Rightarrow> int \<Rightarrow> error + Buffer" where
  "serializeAccountTransactionHeader h payloadSize energyAmount =
     (let serializedSender = decodedAddress (sender h) in
      bind (encodeWord64 (nonce h)) (\<lambda>serializedNonce.
      bind (encodeWord64 energyAmount) (\<lambda>serializedEnergyAmount.
      bind (encodeWord32 (Finite (real payloadSize))) (\<lambda>serializedPayloadSize.
      bind (encodeWord64 (expiryEpochSeconds (expiry h))) (\<lambda>serializedExpiry.
      Inr (concat [serializedSender, serializedNonce, serializedEnergyAmount,
                   serializedPayloadSize, serializedExpiry]))))))"

definition serializeAccountTransaction ::
  "'p collaborators \<Rightarrow> 'p AccountTransaction \<Rightarrow> AccountTransactionSignature \<Rightarrow>
   error + Buffer" where
  "serializeAccountTransaction env accountTransaction signatures =
     bind (encodeWord8 (Finite (real (AccountTransactionKind env)))) (\<lambda>serializedBlockItemKind.
     bind (serializeAccountTransactionSignature signatures) (\<lambda>serializedSignatures.
     let serializedType = serializeAccountTransactionType (type accountTransaction) in
     bind (getAccountTransactionHandler env (type accountTransaction)) (\<lambda>handler.
     bind (serialize handler (payload accountTransaction)) (\<lambda>serializedPayload.
     let baseEnergyCost = getBaseEnergyCost handler (payload accountTransaction);
         energyCost = calculateEnergyCost env (countSignatures env signatures)
                        (int (length serializedPayload + 1)) baseEnergyCost in
     bind (serializeAccountTransactionHeader (header accountTransaction)
             (length serializedPayload + 1) energyCost) (\<lambda>serializedHeader.
     Inr (concat [serializedBlockItemKind, serializedSignatures, serializedHeader,
                  serializedType, serializedPayload]))))))"

definition getAccountTransactionHash ::
  "'p collaborators \<Rightarrow> 'p AccountTransaction \<Rightarrow> AccountTransactionSignature \<Rightarrow>
   error + string" where
  "getAccountTransactionHash env accountTransaction signatures =
     bind (serializeAccountTransaction env accountTransaction signatures)
       (\<lambda>serializedAccountTransaction.
     Inr (toString_hex (sha256 env [serializedAccountTransaction])))"


definition serializeAccountTransactionForSubmission ::
  "'p collaborators \<Rightarrow> 'p AccountTransaction \<Rightarrow> AccountTransactionSignature \<Rightarrow>
   error + Buffer" where
  "serializeAccountTransactionForSubmission env accountTransaction signatures =
     bind (serializeAccountTransaction env accountTransaction signatures)
       (\<lambda>serializedAccountTransaction.
     bind (encodeWord8 (Finite 0)) (\<lambda>serializedVersion.
     Inr (concat [serializedVersion, serializedAccountTransaction])))"

section \<open>The map encoding as the specification words it\<close>

text \<open>
  The specification of the ordered map encoder: the encoded count, then for each key in
  sorted order the encoded key followed by the encoded value, \<open>encodeCount(|map|) ++
  \<Sigma> (encodeKey(k) ++ encodeValue(map[k]))\<close> over \<open>k\<close> in \<open>sorted(keys)\<close>. The first
  encoder that fails ends the encoding.
\<close>

fun encodeAll :: "('a \<Rightarrow> error + Buffer) \<Rightarrow> 'a list \<Rightarrow> error + Buffer" where
  "encodeAll f [] = Inr []"
| "encodeAll f (x # xs) = bind (f x) (\<lambda>b. bind (encodeAll f xs) (\<lambda>bs. Inr (b @ bs)))"

definition encodeMap_spec ::
  "'v object \<Rightarrow> (number \<Rightarrow> error + Buffer) \<Rightarrow> (key \<Rightarrow> error + Buffer) \<Rightarrow>
   ('v \<Rightarrow> error + Buffer) \<Rightarrow> error + Buffer" where
  "encodeMap_spec m encodeCount encodeKey encodeValue =
     bind (encodeCount (Finite (real (length m)))) (\<lambda>c.
     bind (encodeAll (\<lambda>k. bind (encodeKey k) (\<lambda>kb.
                          bind (encodeValue (the (map_of m k))) (\<lambda>vb. Inr (kb @ vb))))
             (sort (map fst m))) (\<lambda>bs.
     Inr (c @ bs)))"

text \<open>
  A string of hexadecimal digits read two at a time, as the specification of the decoding
  of a signature.
\<close>

fun hexPairs :: "string \<Rightarrow> Buffer" where
  "hexPairs (a # b # s) = of_nat (hexValue [a, b]) # hexPairs s"
| "hexPairs s = []"

section \<open>An instance of the collaborators\<close>

text \<open>
  Modelled from the spec: the tag of an account transaction
  (\<open>BlockItemKind.AccountTransactionKind\<close>, declared in the module \<open>types\<close>) is the 01
  of the specification's end-to-end example. The other collaborators of this instance only
  serve to run the serialization on concrete transactions: a handler that takes the payload
  as its own serialization, a cost function, the count of the entries of the inner maps,
  and a stand-in for the hash that returns its whole input, so that a digest shows every
  byte that was hashed.
\<close>

definition example_handler :: "Buffer AccountTransactionHandler" where
  "example_handler = \<lparr>serialize = (\<lambda>p. Inr p), getBaseEnergyCost = (\<lambda>p. 300)\<rparr>"

definition example_collaborators :: "Buffer collaborators" where
  "example_collaborators =
     \<lparr>AccountTransactionKind = 1,
      getAccountTransactionHandler =
        (\<lambda>t. if t = 3 then Inr example_handler
             else Inl (Error ''The provided type does not have a handler: '')),
      calculateEnergyCost = (\<lambda>signatureCount payloadSize cost.
        100 * signatureCount + (60 + payloadSize) + cost),
      countSignatures = (\<lambda>sigs. int (sum_list (map (\<lambda>c. length (snd c)) sigs))),
      sha256 = concat\<rparr>"

definition example_transaction :: "Buffer AccountTransaction" where
  "example_transaction =
     \<lparr>header = \<lparr>sender = \<lparr>decodedAddress = replicate 32 0\<rparr>, nonce = 1,
                expiry = \<lparr>expiryEpochSeconds = 100\<rparr>\<rparr>,
      type = 3, payload = [0x0A, 0x0B]\<rparr>"

section \<open>Evaluation and basic facts\<close>

lemma bind_eq_Inr: "bind x f = Inr b \<longleftrightarrow> (\<exists>a. x = Inr a \<and> f a = Inr b)"
  by (cases x) simp_all

lemma bind_eq_Inl: "bind x f = Inl e \<longleftrightarrow> x = Inl e \<or> (\<exists>a. x = Inr a \<and> f a = Inl e)"
  by (cases x) simp_all

lemma bigEndian_numeral:
  "bigEndian (numeral k) v = of_nat (v div 256 ^ pred_numeral k) # bigEndian (pred_numeral k) v"
  by (simp add: numeral_eq_Suc)

lemma length_bigEndian: "length (bigEndian n v) = n"
  by (induction n) simp_all

lemma hexWrite_numeral:
  "hexWrite s (numeral k) =
     (case parseInt16 (take 2 s) of
        None \<Rightarrow> []
      | Some parsed \<Rightarrow> word_of_int parsed # hexWrite (drop 2 s) (pred_numeral k))"
  by (simp add: numeral_eq_Suc)

lemmas hex_eval = Buffer_from_hex_def hexWrite_numeral parseInt16_def isWhiteSpace_def
  isHexDigit_def hexDigitValue_def hexValue_def

lemmas word_eval = encodeWord8_def encodeWord32_def encodeWord64_def
  encodeWord8FromString_def Number_js_def bigEndian_numeral

lemmas map_eval = serializeMap_def Object_keys_def isArrayIndex_def

lemmas sig_eval = serializeAccountTransactionSignature_def putCredentialSignatures_def
  putSignature_def writeUInt16BE_def

lemmas tx_eval = serializeAccountTransaction_def serializeAccountTransactionHeader_def
  serializeAccountTransactionType_def example_collaborators_def example_transaction_def
  example_handler_def

lemma encodeWord8_zero: "encodeWord8 (Finite 0) = Inr [0]"
  by (simp add: encodeWord8_def)

lemma signatures_example:
  "serializeAccountTransactionSignature [(0, [(0, ''aa'')])] = Inr [1, 0, 1, 0, 0, 1, 0xAA]"
  by (simp add: sig_eval map_eval word_eval hex_eval Let_def)

lemma assemble_example:
  "serializeAccountTransaction example_collaborators example_transaction [(0, [(0, ''aa'')])] =
     Inr ([1] @ [1, 0, 1, 0, 0, 1, 0xAA] @
          (replicate 32 0 @ [0, 0, 0, 0, 0, 0, 0, 1] @ [0, 0, 0, 0, 0, 0, 1, 207] @
           [0, 0, 0, 3] @ [0, 0, 0, 0, 0, 0, 0, 100]) @
          [3] @ [0x0A, 0x0B])"
  by (simp add: tx_eval signatures_example word_eval)

section \<open>Fixed-width encoders\<close>

lemma bigEndian_value:
  "foldl (\<lambda>a b. 256 * a + unat b) a (bigEndian n v) = a * 256 ^ n + v mod 256 ^ n"
proof (induction n arbitrary: a)
  case 0
  show ?case by simp
next
  case (Suc n)
  have byte: "unat (of_nat (v div 256 ^ n) :: 8 word) = v div 256 ^ n mod 256"
    by (simp add: unat_of_nat)
  have split: "v mod 256 ^ Suc n = 256 ^ n * (v div 256 ^ n mod 256) + v mod 256 ^ n"
    using mod_mult2_eq [of v "256 ^ n" 256] by (simp add: mult.commute)
  have "foldl (\<lambda>a b. 256 * a + unat b) a (bigEndian (Suc n) v) =
        foldl (\<lambda>a b. 256 * a + unat b) (256 * a + v div 256 ^ n mod 256) (bigEndian n v)"
    by (simp add: byte)
  also have "\<dots> = (256 * a + v div 256 ^ n mod 256) * 256 ^ n + v mod 256 ^ n"
    by (rule Suc.IH)
  also have "\<dots> = a * 256 ^ Suc n + v mod 256 ^ Suc n"
    unfolding split by (simp add: algebra_simps)
  finally show ?case .
qed

lemma encodeWord8_fails_iff:
  "(\<exists>e. encodeWord8 v = Inl e) \<longleftrightarrow>
     number_lt v 0 \<or> \<not> Number_isInteger v \<or> number_gt v (2 ^ 8 - 1)"
  by (auto simp: encodeWord8_def)

lemma encodeWord16_fails_iff:
  "(\<exists>e. encodeWord16 v = Inl e) \<longleftrightarrow>
     number_lt v 0 \<or> \<not> Number_isInteger v \<or> number_gt v (2 ^ 16 - 1)"
  by (auto simp: encodeWord16_def)

lemma encodeWord32_fails_iff:
  "(\<exists>e. encodeWord32 v = Inl e) \<longleftrightarrow>
     number_lt v 0 \<or> \<not> Number_isInteger v \<or> number_gt v (2 ^ 32 - 1)"
  by (auto simp: encodeWord32_def)

lemma encodeWord64_fails_iff:
  "(\<exists>e. encodeWord64 v = Inl e) \<longleftrightarrow> v < 0 \<or> 2 ^ 63 - 1 < v"
  by (auto simp: encodeWord64_def)

lemma fixed_width_lengths:
  "encodeWord8 x = Inr b \<Longrightarrow> length b = 1"
  "encodeWord16 x = Inr b \<Longrightarrow> length b = 2"
  "encodeWord32 x = Inr b \<Longrightarrow> length b = 4"
  "encodeWord64 y = Inr b \<Longrightarrow> length b = 8"
  by (auto simp: encodeWord8_def encodeWord16_def encodeWord32_def encodeWord64_def
      length_bigEndian split: if_splits)

lemma fixed_width_examples:
  "encodeWord8 (Finite 256) = Inl (Error msg_word16)"
  "encodeWord64 (- 1) = Inl (Error msg_word64)"
  "encodeWord32 (Finite 4294967295) = Inr [0xFF, 0xFF, 0xFF, 0xFF]"
  by (simp_all add: word_eval)

text \<open>
  C2. For each width 8, 16, 32 and 64 the encoder is to fail exactly on the values that are
  negative, not integers, or above \<open>2 ^ w - 1\<close>. The 64 bit encoder compares with
  \<open>2 ^ 63 - 1\<close> instead: \<open>2 ^ 63\<close> is an unsigned 64 bit integer, and \<open>encodeWord64\<close>
  throws on it.
\<close>

theorem encodeWord64_rejects_high_bit:
  "(9223372036854775808 :: int) \<le> 2 ^ 64 - 1 \<and>
   encodeWord64 9223372036854775808 = Inl (Error msg_word64)"
  by (simp add: encodeWord64_def)

section \<open>Submission\<close>

text \<open>
  C7. Whenever the transaction is assembled, the bytes for submission are the byte 0
  followed by exactly the assembled bytes.
\<close>

theorem submission_is_version_then_assembled:
  assumes "serializeAccountTransaction env tx sigs = Inr out"
  shows "serializeAccountTransactionForSubmission env tx sigs = Inr (0 # out)"
  using assms by (simp add: serializeAccountTransactionForSubmission_def encodeWord8_zero)

theorem submission_is_version_then_assembled_witness:
  "serializeAccountTransactionForSubmission example_collaborators example_transaction
     [(0, [(0, ''aa'')])] =
   Inr (0 # [1] @ [1, 0, 1, 0, 0, 1, 0xAA] @
          (replicate 32 0 @ [0, 0, 0, 0, 0, 0, 0, 1] @ [0, 0, 0, 0, 0, 0, 1, 207] @
           [0, 0, 0, 3] @ [0, 0, 0, 0, 0, 0, 0, 100]) @
          [3] @ [0x0A, 0x0B])"
  using submission_is_version_then_assembled [OF assemble_example] by simp

section \<open>The ordered map encoder\<close>

lemma Object_keys_indices:
  assumes "\<forall>k \<in> set (map fst m). isArrayIndex k"
  shows "Object_keys m = sort (map fst m)"
proof -
  have "filter isArrayIndex (map fst m) = map fst m"
    using assms by (simp add: filter_id_conv)
  moreover have "filter (\<lambda>k. \<not> isArrayIndex k) (map fst m) = []"
    using assms by (simp add: filter_empty_conv)
  ultimately show ?thesis
    by (simp add: Object_keys_def)
qed

lemma length_Object_keys: "length (Object_keys m) = length m"
proof -
  have "length (filter isArrayIndex (map fst m)) + length (filter (\<lambda>k. \<not> isArrayIndex k) (map fst m))
        = length (map fst m)"
    by (rule sum_length_filter_compl)
  then show ?thesis
    by (simp add: Object_keys_def)
qed

lemma set_Object_keys: "set (Object_keys m) = fst ` set m"
  by (auto simp: Object_keys_def)

lemma encodeAll_cong:
  "(\<And>x. x \<in> set xs \<Longrightarrow> f x = g x) \<Longrightarrow> encodeAll f xs = encodeAll g xs"
  by (induction xs) simp_all

lemma bind_assoc: "bind (bind x f) g = bind x (\<lambda>a. bind (f a) g)"
  by (cases x) simp_all

lemma forEach_push_encodeAll:
  "bind (forEach_push m ek ev keys acc) (\<lambda>buffers. Inr (concat buffers)) =
   bind (encodeAll (\<lambda>k. bind (ek k) (\<lambda>kb.
           bind (case map_of m k of Some t \<Rightarrow> ev t | None \<Rightarrow> Inl (TypeError ''undefined''))
             (\<lambda>vb. Inr (kb @ vb)))) keys)
     (\<lambda>bs. Inr (concat acc @ bs))"
proof (induction keys arbitrary: acc)
  case Nil
  show ?case by simp
next
  case (Cons k keys)
  show ?case
  proof (cases "ek k")
    case (Inl e)
    then show ?thesis by simp
  next
    case kb: (Inr kb)
    show ?thesis
    proof (cases "case map_of m k of Some t \<Rightarrow> ev t | None \<Rightarrow> Inl (TypeError ''undefined'')")
      case (Inl e)
      then show ?thesis using kb by simp
    next
      case (Inr vb)
      then show ?thesis
        using kb Cons.IH [of "acc @ [kb, vb]"] by (simp add: bind_assoc)
    qed
  qed
qed

lemma serializeMap_by_keys:
  "serializeMap m es ek ev =
     bind (es (Finite (real (length m)))) (\<lambda>c.
     bind (encodeAll (\<lambda>k. bind (ek k) (\<lambda>kb.
             bind (case map_of m k of Some t \<Rightarrow> ev t | None \<Rightarrow> Inl (TypeError ''undefined''))
               (\<lambda>vb. Inr (kb @ vb)))) (Object_keys m)) (\<lambda>bs.
     Inr (c @ bs)))"
  by (simp add: serializeMap_def Let_def length_Object_keys forEach_push_encodeAll)

lemma map_of_the: "k \<in> fst ` set m \<Longrightarrow> map_of m k = Some (the (map_of m k))"
  by (metis map_of_eq_None_iff option.collapse)

lemma serializeMap_refines_spec:
  assumes "\<forall>k \<in> set (map fst m). isArrayIndex k"
  shows "serializeMap m es ek ev = encodeMap_spec m es ek ev"
proof -
  have "encodeAll (\<lambda>k. bind (ek k) (\<lambda>kb.
             bind (case map_of m k of Some t \<Rightarrow> ev t | None \<Rightarrow> Inl (TypeError ''undefined''))
               (\<lambda>vb. Inr (kb @ vb)))) (sort (map fst m))
      = encodeAll (\<lambda>k. bind (ek k) (\<lambda>kb.
             bind (ev (the (map_of m k))) (\<lambda>vb. Inr (kb @ vb)))) (sort (map fst m))"
  proof (rule encodeAll_cong)
    fix k assume "k \<in> set (sort (map fst m))"
    then have "k \<in> fst ` set m" by simp
    then have "map_of m k = Some (the (map_of m k))" by (rule map_of_the)
    then have "(case map_of m k of Some t \<Rightarrow> ev t | None \<Rightarrow> Inl (TypeError ''undefined''))
               = ev (the (map_of m k))"
      by (metis option.simps(5))
    then show "bind (ek k) (\<lambda>kb.
             bind (case map_of m k of Some t \<Rightarrow> ev t | None \<Rightarrow> Inl (TypeError ''undefined''))
               (\<lambda>vb. Inr (kb @ vb))) = bind (ek k) (\<lambda>kb.
             bind (ev (the (map_of m k))) (\<lambda>vb. Inr (kb @ vb)))"
      by simp
  qed
  then show ?thesis
    by (simp add: serializeMap_by_keys encodeMap_spec_def Object_keys_indices [OF assms])
qed

lemma encodeMap_spec_insertion_order:
  assumes "distinct (map fst m)" "distinct (map fst m')" "set m' = set m"
  shows "encodeMap_spec m' es ek ev = encodeMap_spec m es ek ev"
proof -
  have keys: "set (map fst m') = set (map fst m)"
    using assms(3) by simp
  have "sort (map fst m') = sort (map fst m)"
    by (rule sorted_distinct_set_unique) (simp_all add: assms keys)
  moreover have "length m' = length m"
    using assms by (metis distinct_card distinct_map length_map)
  moreover have "map_of m' = map_of m"
    using assms by (simp add: map_of_inject_set)
  ultimately show ?thesis
    by (simp add: encodeMap_spec_def)
qed

text \<open>
  C1. On a map whose keys are small non-negative integers (array indices, below
  \<open>2 ^ 32 - 1\<close>), \<open>serializeMap\<close> returns the encoded entry count followed, for each
  key in ascending numeric order, by the encoded key and the encoded value; the order in
  which the entries were inserted does not matter: two objects with the same entries give
  the same bytes.
\<close>

theorem serializeMap_ascending_keys:
  assumes "\<forall>k \<in> set (map fst m). isArrayIndex k"
  shows "serializeMap m encodeSize encodeKey encodeValue =
           encodeMap_spec m encodeSize encodeKey encodeValue \<and>
         (\<forall>m'. distinct (map fst m) \<and> distinct (map fst m') \<and> set m' = set m \<longrightarrow>
            serializeMap m' encodeSize encodeKey encodeValue =
            serializeMap m encodeSize encodeKey encodeValue)"
proof (intro conjI allI impI)
  show "serializeMap m encodeSize encodeKey encodeValue =
           encodeMap_spec m encodeSize encodeKey encodeValue"
    using assms by (rule serializeMap_refines_spec)
next
  fix m' :: "'a object"
  assume h: "distinct (map fst m) \<and> distinct (map fst m') \<and> set m' = set m"
  then have "\<forall>k \<in> set (map fst m'). isArrayIndex k"
    using assms by simp
  then show "serializeMap m' encodeSize encodeKey encodeValue =
            serializeMap m encodeSize encodeKey encodeValue"
    using h assms
    by (simp add: serializeMap_refines_spec encodeMap_spec_insertion_order)
qed

theorem serializeMap_ascending_keys_witness:
  "list_all isArrayIndex (map fst [(2, [(0, ''cc'')]), (0, [(0, ''aa'')]), (1, [(0, ''bb'')])]) \<and>
   serializeAccountTransactionSignature
     [(2, [(0, ''cc'')]), (0, [(0, ''aa'')]), (1, [(0, ''bb'')])] =
   Inr [3, 0, 1, 0, 0, 1, 0xAA, 1, 1, 0, 0, 1, 0xBB, 2, 1, 0, 0, 1, 0xCC] \<and>
   serializeAccountTransactionSignature
     [(0, [(0, ''aa'')]), (1, [(0, ''bb'')]), (2, [(0, ''cc'')])] =
   Inr [3, 0, 1, 0, 0, 1, 0xAA, 1, 1, 0, 0, 1, 0xBB, 2, 1, 0, 0, 1, 0xCC]"
  using serializeMap_ascending_keys
    [of "[(2, [(0, ''cc'')]), (0, [(0, ''aa'')]), (1, [(0, ''bb'')])]"
        encodeWord8 encodeWord8FromString putCredentialSignatures]
  by (simp add: sig_eval map_eval word_eval hex_eval Let_def encodeMap_spec_def)

section \<open>The signature block\<close>

lemma map_of_defined:
  assumes "k \<in> fst ` set m"
  shows "\<exists>v. map_of m k = Some v \<and> v \<in> snd ` set m"
proof (cases "map_of m k")
  case None
  then show ?thesis
    using assms by (simp add: map_of_eq_None_iff)
next
  case (Some v)
  then have "(k, v) \<in> set m"
    by (rule map_of_SomeD)
  then have "v \<in> snd ` set m"
    by force
  then show ?thesis
    using Some by simp
qed

lemma encodeAll_error:
  assumes "encodeAll f xs = Inl e"
  shows "\<exists>x \<in> set xs. f x = Inl e"
  using assms
proof (induction xs)
  case Nil
  then show ?case by simp
next
  case (Cons x xs)
  then show ?case
    by (cases "f x"; cases "encodeAll f xs") (simp_all add: bind_eq_Inl)
qed

lemma serializeMap_error:
  assumes "serializeMap m es ek ev = Inl e"
  shows "es (Finite (real (length m))) = Inl e \<or> (\<exists>k \<in> fst ` set m. ek k = Inl e) \<or>
         (\<exists>v \<in> snd ` set m. ev v = Inl e)"
proof (cases "es (Finite (real (length m)))")
  case (Inl e')
  then show ?thesis
    using assms by (simp add: serializeMap_by_keys)
next
  case (Inr c)
  let ?g = "\<lambda>k. bind (ek k) (\<lambda>kb.
             bind (case map_of m k of Some t \<Rightarrow> ev t | None \<Rightarrow> Inl (TypeError ''undefined''))
               (\<lambda>vb. Inr (kb @ vb)))"
  from assms Inr have "encodeAll ?g (Object_keys m) = Inl e"
    by (simp add: serializeMap_by_keys bind_eq_Inl)
  then obtain k where k: "k \<in> set (Object_keys m)" and gk: "?g k = Inl e"
    using encodeAll_error [of ?g "Object_keys m" e] by auto
  from k have km: "k \<in> fst ` set m"
    by (simp add: set_Object_keys)
  then obtain v where v: "map_of m k = Some v" and vm: "v \<in> snd ` set m"
    using map_of_defined [of k m] by auto
  from gk v have "ek k = Inl e \<or> ev v = Inl e"
    by (simp add: bind_eq_Inl) blast
  then show ?thesis
    using km vm by blast
qed

lemma encodeWord8_error: "encodeWord8 v = Inl e \<Longrightarrow> e = Error msg_word16"
  by (simp add: encodeWord8_def split: if_splits)

lemma putSignature_error: "putSignature s = Inl e \<Longrightarrow> e = RangeError msg_out_of_bounds"
  by (simp add: putSignature_def writeUInt16BE_def Let_def split: if_splits)

lemma putCredentialSignatures_error:
  assumes "putCredentialSignatures c = Inl e"
  shows "e = Error msg_word16 \<or> e = RangeError msg_out_of_bounds"
  using serializeMap_error [OF assms [unfolded putCredentialSignatures_def]]
  by (auto simp: encodeWord8FromString_def dest: encodeWord8_error putSignature_error)

lemma msg_no_signatures_neq: "msg_no_signatures \<noteq> msg_word16"
  by (simp add: msg_no_signatures_def msg_word16_def)

lemma no_signatures_error_iff:
  "serializeAccountTransactionSignature sigs = Inl (Error msg_no_signatures) \<longleftrightarrow> sigs = []"
proof
  assume fails: "serializeAccountTransactionSignature sigs = Inl (Error msg_no_signatures)"
  show "sigs = []"
  proof (rule ccontr)
    assume "sigs \<noteq> []"
    then have "serializeMap sigs encodeWord8 encodeWord8FromString putCredentialSignatures =
               Inl (Error msg_no_signatures)"
      using fails by (simp add: serializeAccountTransactionSignature_def length_Object_keys)
    from serializeMap_error [OF this] show False
      by (auto simp: encodeWord8FromString_def msg_no_signatures_neq
          dest: encodeWord8_error putCredentialSignatures_error)
  qed
next
  assume "sigs = []"
  then show "serializeAccountTransactionSignature sigs = Inl (Error msg_no_signatures)"
    by (simp add: serializeAccountTransactionSignature_def Object_keys_def)
qed

text \<open>
  C3. \<open>serializeAccountTransactionSignature\<close> is to throw on every signature set that
  holds no signature at all. Its guard counts the credential entries only: on the set with
  one credential and no key under it, which provides no signature, nothing is thrown; the
  block 01 00 00 is returned, and the transaction is assembled with it.
\<close>

theorem empty_credential_is_encoded:
  "sum_list (map (\<lambda>c. length (snd c)) [(0, [])]) = (0 :: nat) \<and>
   serializeAccountTransactionSignature [(0, [])] = Inr [1, 0, 0] \<and>
   serializeAccountTransaction example_collaborators example_transaction [(0, [])] =
     Inr ([1] @ [1, 0, 0] @
          (replicate 32 0 @ [0, 0, 0, 0, 0, 0, 0, 1] @ [0, 0, 0, 0, 0, 0, 1, 107] @
           [0, 0, 0, 3] @ [0, 0, 0, 0, 0, 0, 0, 100]) @
          [3] @ [0x0A, 0x0B])"
proof -
  have block: "serializeAccountTransactionSignature [(0, [])] = Inr [1, 0, 0]"
    by (simp add: sig_eval map_eval word_eval Let_def)
  then show ?thesis
    by (simp add: tx_eval word_eval)
qed

section \<open>Signatures as hexadecimal strings\<close>

lemma hexDigit_not_space_sign:
  assumes "isHexDigit a"
  shows "\<not> isWhiteSpace a" and "a \<noteq> CHR ''+''" and "a \<noteq> CHR ''-''"
    and "a \<noteq> CHR ''x''" and "a \<noteq> CHR ''X''"
  using assms
  by (auto simp: isHexDigit_def hexDigitValue_def isWhiteSpace_def Let_def split: if_splits)

lemma parseInt16_two_digits:
  assumes "isHexDigit a" "isHexDigit b"
  shows "parseInt16 [a, b] = Some (int (hexValue [a, b]))"
  using assms hexDigit_not_space_sign [OF assms(1)] hexDigit_not_space_sign [OF assms(2)]
  by (simp add: parseInt16_def Let_def)

lemma parseInt16_digit_then_other:
  assumes "isHexDigit a" "\<not> isHexDigit b" "a \<noteq> CHR ''0'' \<or> (b \<noteq> CHR ''x'' \<and> b \<noteq> CHR ''X'')"
  shows "parseInt16 [a, b] = Some (int (hexValue [a]))"
  using assms hexDigit_not_space_sign [OF assms(1)]
  by (auto simp: parseInt16_def Let_def)

lemma parseInt16_rejects:
  assumes "\<not> isHexDigit a" "\<not> isWhiteSpace a" "a \<noteq> CHR ''+''" "a \<noteq> CHR ''-''"
  shows "parseInt16 (a # s) = None"
proof -
  have "isHexDigit (CHR ''0'')"
    by (simp add: isHexDigit_def hexDigitValue_def)
  then have "a \<noteq> CHR ''0''"
    using assms(1) by auto
  then show ?thesis
    using assms by (simp add: parseInt16_def Let_def)
qed

lemma hexWrite_valid_prefix:
  assumes "list_all isHexDigit pre" "even (length pre)"
  shows "hexWrite (pre @ tail) (length pre div 2 + n) = hexPairs pre @ hexWrite tail n"
  using assms
proof (induction pre rule: hexPairs.induct)
  case (1 a b s)
  then have "parseInt16 [a, b] = Some (int (hexValue [a, b]))"
    by (simp add: parseInt16_two_digits)
  with 1 show ?case by simp
qed simp_all

lemma length_hexPairs: "length (hexPairs s) = length s div 2"
  by (induction s rule: hexPairs.induct) simp_all

lemma length_hexWrite: "length (hexWrite s n) \<le> n"
  by (induction n arbitrary: s) (simp_all split: option.splits)

lemma hexWrite_stops:
  assumes "length tail < 2 \<or> parseInt16 (take 2 tail) = None"
  shows "hexWrite tail (length tail div 2) = []"
proof (cases "length tail div 2")
  case 0
  then show ?thesis by simp
next
  case (Suc n)
  then have "\<not> length tail < 2" by auto
  with assms have "parseInt16 (take 2 tail) = None" by simp
  with Suc show ?thesis by simp
qed

lemma Buffer_from_hex_prefix:
  assumes "list_all isHexDigit pre" "even (length pre)"
  shows "Buffer_from_hex (pre @ tail) = hexPairs pre @ Buffer_from_hex tail"
proof -
  have "length (pre @ tail) div 2 = length pre div 2 + length tail div 2"
    using assms(2) by (auto elim: evenE)
  then show ?thesis
    using hexWrite_valid_prefix [OF assms, of tail "length tail div 2"]
    by (simp add: Buffer_from_hex_def)
qed

lemma Buffer_from_hex_digit_then_other:
  assumes "isHexDigit a" "\<not> isHexDigit b" "a \<noteq> CHR ''0'' \<or> (b \<noteq> CHR ''x'' \<and> b \<noteq> CHR ''X'')"
  shows "Buffer_from_hex (a # b # tail) = of_nat (hexValue [a]) # Buffer_from_hex tail"
  using parseInt16_digit_then_other [OF assms]
  by (simp add: Buffer_from_hex_def)

lemma bigEndian_2: "bigEndian 2 v = [of_nat (v div 256), of_nat v]"
  by (simp add: bigEndian_numeral)

text \<open>
  C10. A signature is taken as a hexadecimal string. \<open>putSignature\<close> decodes it two
  characters at a time and writes the number of decoded bytes as 16 bits, big-endian,
  followed by those bytes; it fails only when more than 65535 bytes were decoded. A string
  of \<open>2 * n\<close> hexadecimal digits gives \<open>n\<close> bytes. A string with other characters raises
  no error: decoding stops at the first pair that \<open>parseInt\<close> rejects (such as a pair
  whose first character is neither a digit, white space nor a sign) and at an unpaired
  last character, and the signature is cut there. A pair made of a digit and another
  character is not rejected: it is read as the digit alone, and decoding goes on.
\<close>

theorem putSignature_hex:
  "putSignature s =
     (if length (Buffer_from_hex s) \<le> 65535
      then Inr (bigEndian 2 (length (Buffer_from_hex s)) @ Buffer_from_hex s)
      else Inl (RangeError msg_out_of_bounds)) \<and>
   length (Buffer_from_hex s) \<le> length s div 2 \<and>
   (list_all isHexDigit s \<and> even (length s) \<longrightarrow>
      Buffer_from_hex s = hexPairs s \<and> length (Buffer_from_hex s) = length s div 2) \<and>
   (\<forall>pre tail. s = pre @ tail \<and> list_all isHexDigit pre \<and> even (length pre) \<and>
      (length tail < 2 \<or> parseInt16 (take 2 tail) = None) \<longrightarrow>
      Buffer_from_hex s = hexPairs pre) \<and>
   (\<forall>a tail. \<not> isHexDigit a \<and> \<not> isWhiteSpace a \<and> a \<noteq> CHR ''+'' \<and> a \<noteq> CHR ''-'' \<longrightarrow>
      parseInt16 (take 2 (a # tail)) = None) \<and>
   (\<forall>pre a b tail. s = pre @ a # b # tail \<and> list_all isHexDigit pre \<and> even (length pre) \<and>
      isHexDigit a \<and> \<not> isHexDigit b \<and> (a \<noteq> CHR ''0'' \<or> (b \<noteq> CHR ''x'' \<and> b \<noteq> CHR ''X'')) \<longrightarrow>
      Buffer_from_hex s = hexPairs pre @ of_nat (hexValue [a]) # Buffer_from_hex tail)"
proof (intro conjI allI impI)
  show "putSignature s =
     (if length (Buffer_from_hex s) \<le> 65535
      then Inr (bigEndian 2 (length (Buffer_from_hex s)) @ Buffer_from_hex s)
      else Inl (RangeError msg_out_of_bounds))"
    by (simp add: putSignature_def writeUInt16BE_def Let_def bigEndian_2)
next
  show "length (Buffer_from_hex s) \<le> length s div 2"
    by (simp add: Buffer_from_hex_def length_hexWrite)
next
  assume h: "list_all isHexDigit s \<and> even (length s)"
  then have "Buffer_from_hex (s @ []) = hexPairs s @ Buffer_from_hex []"
    by (intro Buffer_from_hex_prefix) simp_all
  then show "Buffer_from_hex s = hexPairs s"
    by (simp add: Buffer_from_hex_def)
  then show "length (Buffer_from_hex s) = length s div 2"
    by (simp add: length_hexPairs)
next
  fix pre tail
  assume h: "s = pre @ tail \<and> list_all isHexDigit pre \<and> even (length pre) \<and>
      (length tail < 2 \<or> parseInt16 (take 2 tail) = None)"
  then have "Buffer_from_hex tail = []"
    by (simp add: Buffer_from_hex_def hexWrite_stops)
  then show "Buffer_from_hex s = hexPairs pre"
    using h by (simp add: Buffer_from_hex_prefix)
next
  fix a :: char and tail :: string
  assume "\<not> isHexDigit a \<and> \<not> isWhiteSpace a \<and> a \<noteq> CHR ''+'' \<and> a \<noteq> CHR ''-''"
  then show "parseInt16 (take 2 (a # tail)) = None"
    by (cases tail) (simp_all add: parseInt16_rejects)
next
  fix pre a b tail
  assume h: "s = pre @ a # b # tail \<and> list_all isHexDigit pre \<and> even (length pre) \<and>
      isHexDigit a \<and> \<not> isHexDigit b \<and> (a \<noteq> CHR ''0'' \<or> (b \<noteq> CHR ''x'' \<and> b \<noteq> CHR ''X''))"
  then show "Buffer_from_hex s = hexPairs pre @ of_nat (hexValue [a]) # Buffer_from_hex tail"
    by (simp add: Buffer_from_hex_prefix Buffer_from_hex_digit_then_other)
qed

theorem putSignature_hex_witness:
  "putSignature ''aabb'' = Inr [0, 2, 0xAA, 0xBB] \<and>
   putSignature ''aazz'' = Inr [0, 1, 0xAA] \<and>
   putSignature ''zz'' = Inr [0, 0]"
  using putSignature_hex [of "''aabb''"] putSignature_hex [of "''aazz''"]
    putSignature_hex [of "''zz''"]
  by (simp add: hex_eval Let_def bigEndian_2)

theorem putSignature_not_truncated_counterexample:
  "\<not> list_all isHexDigit ''agbb'' \<and> length ''agbb'' div 2 = 2 \<and>
   putSignature ''agbb'' = Inr [0, 2, 0x0A, 0xBB]"
  by (simp add: putSignature_def writeUInt16BE_def hex_eval Let_def)

section \<open>The assembled transaction\<close>

lemma encodeWord64_Inr:
  assumes "encodeWord64 v = Inr b"
  shows "b = bigEndian 8 (nat v)" and "0 \<le> v" and "v < 2 ^ 64" and "length b = 8"
proof -
  from assms have range: "0 \<le> v" "v \<le> 9223372036854775807"
    by (simp_all add: encodeWord64_def split: if_splits)
  then show "0 \<le> v" and "v < 2 ^ 64" by simp_all
  then have "v mod 2 ^ 64 = v" by simp
  with assms range show "b = bigEndian 8 (nat v)"
    by (simp add: encodeWord64_def)
  then show "length b = 8"
    by (simp add: length_bigEndian)
qed

lemma encodeWord64_out_of_width:
  assumes "v < 0 \<or> 2 ^ 64 \<le> v"
  shows "encodeWord64 v = Inl (Error msg_word64)"
  using assms by (auto simp: encodeWord64_def)

lemma encodeWord32_length_Inr:
  assumes "encodeWord32 (Finite (real n)) = Inr b"
  shows "b = bigEndian 4 n" and "n < 2 ^ 32"
proof -
  from assms have "\<not> real n > 4294967295"
    by (simp add: encodeWord32_def split: if_splits)
  then have n: "n \<le> 4294967295"
    by linarith
  then show "n < 2 ^ 32" by simp
  then have "int n mod 2 ^ 32 = int n" by simp
  then have "ToUint 32 (Finite (real n)) = n"
    by simp
  with assms show "b = bigEndian 4 n"
    by (simp add: encodeWord32_def split: if_splits)
qed

lemma encodeWord32_out_of_width:
  assumes "2 ^ 32 \<le> n"
  shows "encodeWord32 (Finite (real n)) = Inl (Error msg_word32)"
proof -
  from assms have "4294967296 \<le> n"
    by simp
  then have "(4294967296 :: real) \<le> real n"
    by linarith
  then show ?thesis
    by (simp add: encodeWord32_def)
qed

lemma encodeWord8_nat_Inr:
  assumes "encodeWord8 (Finite (real n)) = Inr b"
  shows "b = [of_nat n]" and "n \<le> 255"
proof -
  from assms have "\<not> real n > 255"
    by (simp add: encodeWord8_def split: if_splits)
  then show n: "n \<le> 255"
    by linarith
  then have "int n mod 2 ^ 8 = int n" by simp
  then have "ToUint 8 (Finite (real n)) = n"
    by simp
  with assms show "b = [of_nat n]"
    by (simp add: encodeWord8_def split: if_splits)
qed

lemma encodeWord8_nat:
  assumes "n \<le> 255"
  shows "encodeWord8 (Finite (real n)) = Inr [of_nat n]"
proof -
  from assms have "int n mod 2 ^ 8 = int n" by simp
  then have "ToUint 8 (Finite (real n)) = n"
    by simp
  with assms show ?thesis
    by (simp add: encodeWord8_def)
qed

lemma header_Inr:
  assumes "serializeAccountTransactionHeader h n energy = Inr hb"
  shows "hb = decodedAddress (sender h) @ bigEndian 8 (nat (nonce h)) @
              bigEndian 8 (nat energy) @ bigEndian 4 n @
              bigEndian 8 (nat (expiryEpochSeconds (expiry h)))"
proof -
  from assms obtain nb eb sb xb where
    parts: "encodeWord64 (nonce h) = Inr nb" "encodeWord64 energy = Inr eb"
      "encodeWord32 (Finite (real n)) = Inr sb"
      "encodeWord64 (expiryEpochSeconds (expiry h)) = Inr xb"
    and hb: "hb = decodedAddress (sender h) @ nb @ eb @ sb @ xb"
    by (simp add: serializeAccountTransactionHeader_def Let_def bind_eq_Inr) blast
  show ?thesis
    using hb encodeWord64_Inr(1) [OF parts(1)] encodeWord64_Inr(1) [OF parts(2)]
      encodeWord32_length_Inr(1) [OF parts(3)] encodeWord64_Inr(1) [OF parts(4)]
    by simp
qed

lemma assemble_Inr:
  assumes "serializeAccountTransaction env tx sigs = Inr out"
  shows "\<exists>kb sb h p hb.
           encodeWord8 (Finite (real (AccountTransactionKind env))) = Inr kb \<and>
           serializeAccountTransactionSignature sigs = Inr sb \<and>
           getAccountTransactionHandler env (type tx) = Inr h \<and>
           serialize h (payload tx) = Inr p \<and>
           serializeAccountTransactionHeader (header tx) (length p + 1)
             (calculateEnergyCost env (countSignatures env sigs) (int (length p + 1))
                (getBaseEnergyCost h (payload tx))) = Inr hb \<and>
           out = kb @ sb @ hb @ serializeAccountTransactionType (type tx) @ p"
  using assms
  by (simp add: serializeAccountTransaction_def Let_def bind_eq_Inr) blast

text \<open>
  C4. In every assembled transaction the header is the sender bytes as supplied, the nonce
  on 8 bytes, the energy on 8 bytes, the payload size on 4 bytes and the expiry on 8
  bytes, each big-endian; the payload size written is the length of the type byte plus
  the length of the serialized payload, and the energy is the cost computed for that
  size.
\<close>

theorem assembled_header_layout:
  assumes "serializeAccountTransaction env tx sigs = Inr out"
  shows "\<exists>kb sb h p.
           encodeWord8 (Finite (real (AccountTransactionKind env))) = Inr kb \<and>
           serializeAccountTransactionSignature sigs = Inr sb \<and>
           getAccountTransactionHandler env (type tx) = Inr h \<and>
           serialize h (payload tx) = Inr p \<and>
           out = kb @ sb @
             (decodedAddress (sender (header tx)) @
              bigEndian 8 (nat (nonce (header tx))) @
              bigEndian 8 (nat (calculateEnergyCost env (countSignatures env sigs)
                 (int (length (serializeAccountTransactionType (type tx)) + length p))
                 (getBaseEnergyCost h (payload tx)))) @
              bigEndian 4 (length (serializeAccountTransactionType (type tx)) + length p) @
              bigEndian 8 (nat (expiryEpochSeconds (expiry (header tx))))) @
             serializeAccountTransactionType (type tx) @ p"
proof -
  from assemble_Inr [OF assms] obtain kb sb h p hb where
    steps: "encodeWord8 (Finite (real (AccountTransactionKind env))) = Inr kb"
      "serializeAccountTransactionSignature sigs = Inr sb"
      "getAccountTransactionHandler env (type tx) = Inr h"
      "serialize h (payload tx) = Inr p"
    and hb: "serializeAccountTransactionHeader (header tx) (length p + 1)
             (calculateEnergyCost env (countSignatures env sigs) (int (length p + 1))
                (getBaseEnergyCost h (payload tx))) = Inr hb"
    and out: "out = kb @ sb @ hb @ serializeAccountTransactionType (type tx) @ p"
    by blast
  have len: "length (serializeAccountTransactionType (type tx)) + length p = length p + 1"
    by (simp add: serializeAccountTransactionType_def)
  show ?thesis
    by (rule exI [of _ kb], rule exI [of _ sb], rule exI [of _ h], rule exI [of _ p])
      (simp add: steps out header_Inr [OF hb] len)
qed

theorem assembled_header_layout_witness:
  "serializeAccountTransaction example_collaborators example_transaction [(0, [(0, ''aa'')])] =
     Inr ([1] @ [1, 0, 1, 0, 0, 1, 0xAA] @
          (replicate 32 0 @ [0, 0, 0, 0, 0, 0, 0, 1] @ [0, 0, 0, 0, 0, 0, 1, 207] @
           [0, 0, 0, 3] @ [0, 0, 0, 0, 0, 0, 0, 100]) @
          [3] @ [0x0A, 0x0B]) \<and>
   (\<exists>kb sb h p.
     encodeWord8 (Finite (real (AccountTransactionKind example_collaborators))) = Inr kb \<and>
     serializeAccountTransactionSignature [(0, [(0, ''aa'')])] = Inr sb \<and>
     getAccountTransactionHandler example_collaborators (type example_transaction) = Inr h \<and>
     serialize h (payload example_transaction) = Inr p \<and>
     [1] @ [1, 0, 1, 0, 0, 1, 0xAA] @
          (replicate 32 0 @ [0, 0, 0, 0, 0, 0, 0, 1] @ [0, 0, 0, 0, 0, 0, 1, 207] @
           [0, 0, 0, 3] @ [0, 0, 0, 0, 0, 0, 0, 100]) @
          [3] @ [0x0A, 0x0B] = kb @ sb @
       (decodedAddress (sender (header example_transaction)) @
        bigEndian 8 (nat (nonce (header example_transaction))) @
        bigEndian 8 (nat (calculateEnergyCost example_collaborators
           (countSignatures example_collaborators [(0, [(0, ''aa'')])])
           (int (length (serializeAccountTransactionType (type example_transaction)) + length p))
           (getBaseEnergyCost h (payload example_transaction)))) @
        bigEndian 4 (length (serializeAccountTransactionType (type example_transaction)) + length p) @
        bigEndian 8 (nat (expiryEpochSeconds (expiry (header example_transaction))))) @
       serializeAccountTransactionType (type example_transaction) @ p)"
  using assemble_example assembled_header_layout [OF assemble_example] by (rule conjI)

section \<open>The two digests\<close>







lemma length_toString_hex: "length (toString_hex b) = 2 * length b"
  by (induction b) (simp_all add: toString_hex_def)

lemma hexDigitValue_hexChar:
  assumes "d < 16"
  shows "hexDigitValue (hexChar d) = Some d"
proof -
  from assms have "d \<in> {0, 1, 2, 3, 4, 5, 6, 7, 8, 9, 10, 11, 12, 13, 14, 15}"
    by simp arith
  then show ?thesis
    by (auto simp: hexChar_def hexDigitValue_def)
qed

lemma hexChar_lower:
  assumes "d < 16"
  shows "hexChar d \<in> set ''0123456789abcdef''"
proof -
  from assms have "d \<in> {0, 1, 2, 3, 4, 5, 6, 7, 8, 9, 10, 11, 12, 13, 14, 15}"
    by simp arith
  then show ?thesis
    by (auto simp: hexChar_def)
qed

lemma hexValue_of_byte:
  "of_nat (hexValue [hexChar (unat b div 16), hexChar (unat b mod 16)]) = (b :: 8 word)"
proof -
  have "unat b < 256"
    using unsigned_less [of b] by simp
  then have hi: "unat b div 16 < 16" and lo: "unat b mod 16 < 16"
    by simp_all
  have "hexValue [hexChar (unat b div 16), hexChar (unat b mod 16)] =
        16 * (unat b div 16) + unat b mod 16"
    by (simp add: hexValue_def hexDigitValue_hexChar [OF hi] hexDigitValue_hexChar [OF lo])
  also have "\<dots> = unat b"
    by simp
  finally show ?thesis
    by simp
qed

lemma hexPairs_toString_hex: "hexPairs (toString_hex b) = b"
proof (induction b)
  case Nil
  show ?case by (simp add: toString_hex_def)
next
  case (Cons x xs)
  then have "hexPairs (toString_hex xs) = xs" .
  then show ?case
    using hexValue_of_byte [of x] by (simp add: toString_hex_def)
qed

lemma toString_hex_lower: "list_all (\<lambda>c. c \<in> set ''0123456789abcdef'') (toString_hex b)"
proof (induction b)
  case Nil
  show ?case by (simp add: toString_hex_def)
next
  case (Cons x xs)
  have "unat x < 256"
    using unsigned_less [of x] by simp
  then have "unat x div 16 < 16" and "unat x mod 16 < 16"
    by simp_all
  then have "hexChar (unat x div 16) \<in> set ''0123456789abcdef''"
    and "hexChar (unat x mod 16) \<in> set ''0123456789abcdef''"
    by (simp_all only: hexChar_lower)
  with Cons show ?case
    by (simp add: toString_hex_def)
qed

lemma toString_hex_append: "toString_hex (a @ b) = toString_hex a @ toString_hex b"
  by (simp add: toString_hex_def)

lemma toString_hex_zeros: "toString_hex (replicate n 0) = replicate (2 * n) (CHR ''0'')"
  by (induction n) (simp_all add: toString_hex_def hexChar_def)

text \<open>
  C8. Whenever the transaction is assembled, the transaction hash is the hexadecimal text
  (two lower-case digits per byte, from which the digest can be read back) of the hash of
  one buffer, and that buffer is the whole assembled transaction and nothing else: the
  kind byte, the signature block, the header (the sender, the nonce, the energy, the
  payload size and the expiry), the type byte and the serialized payload.
\<close>

theorem transactionHash_of_assembled:
  assumes "serializeAccountTransaction env tx sigs = Inr out"
  shows "\<exists>sb h p.
           serializeAccountTransactionSignature sigs = Inr sb \<and>
           getAccountTransactionHandler env (type tx) = Inr h \<and>
           serialize h (payload tx) = Inr p \<and>
           out = [of_nat (AccountTransactionKind env)] @ sb @
             (decodedAddress (sender (header tx)) @
              bigEndian 8 (nat (nonce (header tx))) @
              bigEndian 8 (nat (calculateEnergyCost env (countSignatures env sigs)
                 (int (length p + 1)) (getBaseEnergyCost h (payload tx)))) @
              bigEndian 4 (length p + 1) @
              bigEndian 8 (nat (expiryEpochSeconds (expiry (header tx))))) @
             [of_nat (type tx)] @ p \<and>
           getAccountTransactionHash env tx sigs = Inr (toString_hex (sha256 env [out])) \<and>
           hexPairs (toString_hex (sha256 env [out])) = sha256 env [out] \<and>
           list_all (\<lambda>c. c \<in> set ''0123456789abcdef'') (toString_hex (sha256 env [out])) \<and>
           length (toString_hex (sha256 env [out])) = 2 * length (sha256 env [out])"
proof -
  from assemble_Inr [OF assms] obtain kb sb h p hb where
    kind: "encodeWord8 (Finite (real (AccountTransactionKind env))) = Inr kb"
    and steps: "serializeAccountTransactionSignature sigs = Inr sb"
      "getAccountTransactionHandler env (type tx) = Inr h"
      "serialize h (payload tx) = Inr p"
    and hb: "serializeAccountTransactionHeader (header tx) (length p + 1)
             (calculateEnergyCost env (countSignatures env sigs) (int (length p + 1))
                (getBaseEnergyCost h (payload tx))) = Inr hb"
    and out: "out = kb @ sb @ hb @ serializeAccountTransactionType (type tx) @ p"
    by blast
  have kb: "kb = [of_nat (AccountTransactionKind env)]"
    using kind by (rule encodeWord8_nat_Inr)
  have hash: "getAccountTransactionHash env tx sigs = Inr (toString_hex (sha256 env [out]))"
    using assms by (simp add: getAccountTransactionHash_def)
  have layout: "out = [of_nat (AccountTransactionKind env)] @ sb @
             (decodedAddress (sender (header tx)) @
              bigEndian 8 (nat (nonce (header tx))) @
              bigEndian 8 (nat (calculateEnergyCost env (countSignatures env sigs)
                 (int (length p + 1)) (getBaseEnergyCost h (payload tx)))) @
              bigEndian 4 (length p + 1) @
              bigEndian 8 (nat (expiryEpochSeconds (expiry (header tx))))) @
             [of_nat (type tx)] @ p"
    using out kb header_Inr [OF hb] by (simp add: serializeAccountTransactionType_def)
  have readback: "hexPairs (toString_hex (sha256 env [out])) = sha256 env [out]"
    by (rule hexPairs_toString_hex)
  have lower: "list_all (\<lambda>c. c \<in> set ''0123456789abcdef'') (toString_hex (sha256 env [out]))"
    by (rule toString_hex_lower)
  have len: "length (toString_hex (sha256 env [out])) = 2 * length (sha256 env [out])"
    by (rule length_toString_hex)
  show ?thesis
    using steps layout hash readback lower len by blast
qed

theorem transactionHash_of_assembled_witness:
  "getAccountTransactionHash example_collaborators example_transaction [(0, [(0, ''aa'')])] =
     Inr (''01'' @ ''010001000001aa'' @ replicate 64 (CHR ''0'') @ ''0000000000000001'' @
          ''00000000000001cf'' @ ''00000003'' @ ''0000000000000064'' @ ''03'' @ ''0a0b'')"
proof -
  from transactionHash_of_assembled [OF assemble_example]
  have "getAccountTransactionHash example_collaborators example_transaction
          [(0, [(0, ''aa'')])] =
        Inr (toString_hex (sha256 example_collaborators
          [[1] @ [1, 0, 1, 0, 0, 1, 0xAA] @
           (replicate 32 0 @ [0, 0, 0, 0, 0, 0, 0, 1] @ [0, 0, 0, 0, 0, 0, 1, 207] @
            [0, 0, 0, 3] @ [0, 0, 0, 0, 0, 0, 0, 100]) @
           [3] @ [0x0A, 0x0B]]))"
    by blast
  moreover have "toString_hex [1, 1, 0, 1, 0, 0, 1, 0xAA] = ''01010001000001aa''"
    and "toString_hex [0, 0, 0, 0, 0, 0, 0, 1, 0, 0, 0, 0, 0, 0, 1, 207, 0, 0, 0, 3,
           0, 0, 0, 0, 0, 0, 0, 100, 3, 0x0A, 0x0B] =
         ''000000000000000100000000000001cf000000030000000000000064030a0b''"
    by (simp_all add: toString_hex_def hexChar_def)
  ultimately show ?thesis
    using toString_hex_append [of "[1, 1, 0, 1, 0, 0, 1, 0xAA]"
        "replicate 32 0 @ [0, 0, 0, 0, 0, 0, 0, 1, 0, 0, 0, 0, 0, 0, 1, 207, 0, 0, 0, 3,
           0, 0, 0, 0, 0, 0, 0, 100, 3, 0x0A, 0x0B]"]
      toString_hex_append [of "replicate 32 0"
        "[0, 0, 0, 0, 0, 0, 0, 1, 0, 0, 0, 0, 0, 0, 1, 207, 0, 0, 0, 3,
           0, 0, 0, 0, 0, 0, 0, 100, 3, 0x0A, 0x0B]"]
    by (simp add: example_collaborators_def toString_hex_zeros)
qed

section \<open>The end-to-end example\<close>

text \<open>
  C6. For the sender of 32 zero bytes, nonce 1, expiry 100, type 3, a payload serialized
  as 0A 0B and the signatures \<open>{0: {0: "aa"}}\<close>, the assembled bytes are the kind byte
  (the tag of an account transaction, 01 in the example of the specification), the
  signature block 01 00 01 00 00 01 AA (one credential, index 0, one key, index 0, length 1
  on two bytes, the byte AA), the header (the sender, the nonce, the energy, the payload
  size 3, the expiry), then 03 and 0A 0B.
\<close>

theorem assemble_fixed_input:
  assumes "AccountTransactionKind env \<le> 255"
    and "getAccountTransactionHandler env 3 = Inr h"
    and "serialize h p = Inr [0x0A, 0x0B]"
    and "encodeWord64 (calculateEnergyCost env (countSignatures env [(0, [(0, ''aa'')])]) 3
           (getBaseEnergyCost h p)) = Inr eb"
  shows "serializeAccountTransaction env
           \<lparr>header = \<lparr>sender = \<lparr>decodedAddress = replicate 32 0\<rparr>, nonce = 1,
                      expiry = \<lparr>expiryEpochSeconds = 100\<rparr>\<rparr>,
            type = 3, payload = p\<rparr>
           [(0, [(0, ''aa'')])] =
         Inr ([of_nat (AccountTransactionKind env)] @
              [0x01, 0x00, 0x01, 0x00, 0x00, 0x01, 0xAA] @
              (replicate 32 0 @ [0, 0, 0, 0, 0, 0, 0, 1] @ eb @ [0, 0, 0, 3] @
               [0, 0, 0, 0, 0, 0, 0, 100]) @
              [0x03] @ [0x0A, 0x0B])"
  using assms
  by (simp add: serializeAccountTransaction_def serializeAccountTransactionHeader_def
      serializeAccountTransactionType_def signatures_example encodeWord8_nat
      encodeWord32_def bigEndian_numeral encodeWord64_def [of 1]
      encodeWord64_def [of 100])

theorem assemble_fixed_input_witness:
  "serializeAccountTransaction example_collaborators
           \<lparr>header = \<lparr>sender = \<lparr>decodedAddress = replicate 32 0\<rparr>, nonce = 1,
                      expiry = \<lparr>expiryEpochSeconds = 100\<rparr>\<rparr>,
            type = 3, payload = [0x0A, 0x0B]\<rparr>
           [(0, [(0, ''aa'')])] =
         Inr ([0x01] @ [0x01, 0x00, 0x01, 0x00, 0x00, 0x01, 0xAA] @
              (replicate 32 0 @ [0, 0, 0, 0, 0, 0, 0, 1] @ [0, 0, 0, 0, 0, 0, 1, 207] @
               [0, 0, 0, 3] @ [0, 0, 0, 0, 0, 0, 0, 100]) @
              [0x03] @ [0x0A, 0x0B])"
  using assemble_fixed_input [of example_collaborators example_handler "[0x0A, 0x0B]"
      "[0, 0, 0, 0, 0, 0, 1, 207]"]
  by (simp add: example_collaborators_def example_handler_def encodeWord64_def
      bigEndian_numeral)

theorem assemble_fixed_input_counterexample:
  "map_sum id (take 8)
     (serializeAccountTransaction example_collaborators example_transaction
        [(0, [(0, ''aa'')])]) =
     Inr [0x01, 0x01, 0x00, 0x01, 0x00, 0x00, 0x01, 0xAA] \<and>
   [0x01, 0x01, 0x00, 0x01, 0x00, 0x00, 0x01, 0xAA] \<noteq>
   [0x01, 0x01, 0x00, 0x01, 0x01, 0x00, 0x02, 0xAA :: 8 word]"
  by (simp add: assemble_example)

section \<open>Errors\<close>

lemma header_out_of_width:
  assumes "nonce h < 0 \<or> 2 ^ 64 \<le> nonce h \<or> energy < 0 \<or> 2 ^ 64 \<le> energy \<or> 2 ^ 32 \<le> n \<or>
           expiryEpochSeconds (expiry h) < 0 \<or> 2 ^ 64 \<le> expiryEpochSeconds (expiry h)"
  shows "\<exists>e. serializeAccountTransactionHeader h n energy = Inl e"
proof (cases "serializeAccountTransactionHeader h n energy")
  case (Inl e)
  then show ?thesis by simp
next
  case (Inr hb)
  then obtain nb eb sb xb where
    parts: "encodeWord64 (nonce h) = Inr nb" "encodeWord64 energy = Inr eb"
      "encodeWord32 (Finite (real n)) = Inr sb"
      "encodeWord64 (expiryEpochSeconds (expiry h)) = Inr xb"
    by (simp add: serializeAccountTransactionHeader_def Let_def bind_eq_Inr) blast
  have "0 \<le> nonce h" "nonce h < 2 ^ 64" "0 \<le> energy" "energy < 2 ^ 64" "n < 2 ^ 32"
    "0 \<le> expiryEpochSeconds (expiry h)" "expiryEpochSeconds (expiry h) < 2 ^ 64"
    using encodeWord64_Inr(2,3) [OF parts(1)] encodeWord64_Inr(2,3) [OF parts(2)]
      encodeWord32_length_Inr(2) [OF parts(3)] encodeWord64_Inr(2,3) [OF parts(4)]
    by simp_all
  with assms show ?thesis by linarith
qed

lemma assemble_Inl_iff:
  "serializeAccountTransaction env tx sigs = Inl e \<longleftrightarrow>
     encodeWord8 (Finite (real (AccountTransactionKind env))) = Inl e \<or>
     (\<exists>kb. encodeWord8 (Finite (real (AccountTransactionKind env))) = Inr kb \<and>
       (serializeAccountTransactionSignature sigs = Inl e \<or>
        (\<exists>sb. serializeAccountTransactionSignature sigs = Inr sb \<and>
          (getAccountTransactionHandler env (type tx) = Inl e \<or>
           (\<exists>h. getAccountTransactionHandler env (type tx) = Inr h \<and>
             (serialize h (payload tx) = Inl e \<or>
              (\<exists>p. serialize h (payload tx) = Inr p \<and>
                 serializeAccountTransactionHeader (header tx) (length p + 1)
                   (calculateEnergyCost env (countSignatures env sigs) (int (length p + 1))
                      (getBaseEnergyCost h (payload tx))) = Inl e)))))))"
  by (simp add: serializeAccountTransaction_def Let_def bind_eq_Inl)

lemma assemble_no_signatures:
  assumes "AccountTransactionKind env \<le> 255"
  shows "serializeAccountTransaction env tx [] = Inl (Error msg_no_signatures)"
  using assms
  by (simp add: serializeAccountTransaction_def encodeWord8_nat
      serializeAccountTransactionSignature_def Object_keys_def)

lemma encodeAll_Inr:
  assumes "encodeAll f xs = Inr bs"
  shows "\<forall>x \<in> set xs. \<exists>b. f x = Inr b"
  using assms
proof (induction xs arbitrary: bs)
  case Nil
  show ?case by simp
next
  case (Cons x xs)
  from Cons.prems obtain b bs' where "f x = Inr b" and "encodeAll f xs = Inr bs'"
    by (auto simp: bind_eq_Inr)
  with Cons.IH show ?case by auto
qed

lemma serializeMap_Inr:
  assumes "serializeMap m es ek ev = Inr out" and "distinct (map fst m)"
  shows "\<exists>c. es (Finite (real (length m))) = Inr c"
    and "\<forall>(k, v) \<in> set m. (\<exists>kb. ek k = Inr kb) \<and> (\<exists>vb. ev v = Inr vb)"
proof -
  let ?g = "\<lambda>k. bind (ek k) (\<lambda>kb.
             bind (case map_of m k of Some t \<Rightarrow> ev t | None \<Rightarrow> Inl (TypeError ''undefined''))
               (\<lambda>vb. Inr (kb @ vb)))"
  from assms(1) obtain c bs where c: "es (Finite (real (length m))) = Inr c"
    and all: "encodeAll ?g (Object_keys m) = Inr bs"
    by (auto simp: serializeMap_by_keys bind_eq_Inr)
  from c show "\<exists>c. es (Finite (real (length m))) = Inr c" by blast
  show "\<forall>(k, v) \<in> set m. (\<exists>kb. ek k = Inr kb) \<and> (\<exists>vb. ev v = Inr vb)"
  proof (clarify)
    fix k v assume kv: "(k, v) \<in> set m"
    then have "k \<in> set (Object_keys m)"
      by (force simp: set_Object_keys)
    with encodeAll_Inr [OF all] obtain b where b: "?g k = Inr b"
      by blast
    from kv assms(2) have "map_of m k = Some v"
      by simp
    with b show "(\<exists>kb. ek k = Inr kb) \<and> (\<exists>vb. ev v = Inr vb)"
      by (auto simp: bind_eq_Inr)
  qed
qed

lemma putSignature_fails_iff:
  "(\<exists>e. putSignature s = Inl e) \<longleftrightarrow> 65535 < length (Buffer_from_hex s)"
  by (simp add: putSignature_def writeUInt16BE_def Let_def)

lemma putCredentialSignatures_Inr:
  assumes "putCredentialSignatures c = Inr b" and "distinct (map fst c)"
  shows "length c \<le> 255 \<and>
         (\<forall>(j, s) \<in> set c. j \<le> 255 \<and> length (Buffer_from_hex s) \<le> 65535)"
proof -
  note ok = serializeMap_Inr [OF assms(1) [unfolded putCredentialSignatures_def] assms(2)]
  from ok(1) have "length c \<le> 255"
    by (auto dest: encodeWord8_nat_Inr(2))
  moreover have "\<forall>(j, s) \<in> set c. j \<le> 255 \<and> length (Buffer_from_hex s) \<le> 65535"
  proof (clarify)
    fix j s assume "(j, s) \<in> set c"
    with ok(2) obtain kb vb where "encodeWord8FromString j = Inr kb" "putSignature s = Inr vb"
      by blast
    then show "j \<le> 255 \<and> length (Buffer_from_hex s) \<le> 65535"
      using putSignature_fails_iff [of s]
      by (auto simp: encodeWord8FromString_def Number_js_def dest: encodeWord8_nat_Inr(2))
  qed
  ultimately show ?thesis by blast
qed

lemma signature_block_Inr:
  assumes "serializeAccountTransactionSignature sigs = Inr sb"
    and "distinct (map fst sigs)" and "\<forall>(k, c) \<in> set sigs. distinct (map fst c)"
  shows "sigs \<noteq> [] \<and> length sigs \<le> 255 \<and>
         (\<forall>(k, c) \<in> set sigs. k \<le> 255 \<and> length c \<le> 255 \<and>
            (\<forall>(j, s) \<in> set c. j \<le> 255 \<and> length (Buffer_from_hex s) \<le> 65535))"
proof -
  from assms(1) have nonempty: "sigs \<noteq> []"
    by (auto simp: serializeAccountTransactionSignature_def Object_keys_def)
  with assms(1) have
    "serializeMap sigs encodeWord8 encodeWord8FromString putCredentialSignatures = Inr sb"
    by (simp add: serializeAccountTransactionSignature_def length_Object_keys)
  note ok = serializeMap_Inr [OF this assms(2)]
  from ok(1) have "length sigs \<le> 255"
    by (auto dest: encodeWord8_nat_Inr(2))
  moreover have "\<forall>(k, c) \<in> set sigs. k \<le> 255 \<and> length c \<le> 255 \<and>
            (\<forall>(j, s) \<in> set c. j \<le> 255 \<and> length (Buffer_from_hex s) \<le> 65535)"
  proof (clarify)
    fix k c assume kc: "(k, c) \<in> set sigs"
    with ok(2) obtain kb vb where "encodeWord8FromString k = Inr kb"
      and vb: "putCredentialSignatures c = Inr vb"
      by blast
    then have "k \<le> 255"
      by (auto simp: encodeWord8FromString_def Number_js_def dest: encodeWord8_nat_Inr(2))
    moreover from kc assms(3) have "distinct (map fst c)"
      by blast
    note putCredentialSignatures_Inr [OF vb this]
    ultimately show "k \<le> 255 \<and> length c \<le> 255 \<and>
            (\<forall>(j, s) \<in> set c. j \<le> 255 \<and> length (Buffer_from_hex s) \<le> 65535)"
      by blast
  qed
  ultimately show ?thesis
    using nonempty by blast
qed

lemma signature_block_error:
  assumes "serializeAccountTransactionSignature sigs = Inl e"
  shows "(sigs = [] \<and> e = Error msg_no_signatures) \<or>
         encodeWord8 (Finite (real (length sigs))) = Inl e \<or>
         (\<exists>(k, c) \<in> set sigs. encodeWord8FromString k = Inl e \<or>
            encodeWord8 (Finite (real (length c))) = Inl e \<or>
            (\<exists>(j, s) \<in> set c. encodeWord8FromString j = Inl e \<or> putSignature s = Inl e))"
proof (cases "sigs = []")
  case True
  with assms show ?thesis
    by (simp add: serializeAccountTransactionSignature_def Object_keys_def)
next
  case False
  with assms have
    "serializeMap sigs encodeWord8 encodeWord8FromString putCredentialSignatures = Inl e"
    by (simp add: serializeAccountTransactionSignature_def length_Object_keys)
  from serializeMap_error [OF this]
  consider "encodeWord8 (Finite (real (length sigs))) = Inl e"
    | k where "k \<in> fst ` set sigs" "encodeWord8FromString k = Inl e"
    | c where "c \<in> snd ` set sigs" "putCredentialSignatures c = Inl e"
    by blast
  then show ?thesis
  proof cases
    case 1
    then show ?thesis by simp
  next
    case 2
    then show ?thesis by force
  next
    case 3
    from serializeMap_error [OF 3(2) [unfolded putCredentialSignatures_def]]
    have "encodeWord8 (Finite (real (length c))) = Inl e \<or>
          (\<exists>(j, s) \<in> set c. encodeWord8FromString j = Inl e \<or> putSignature s = Inl e)"
      by force
    with 3(1) show ?thesis by force
  qed
qed

lemma header_Inr_widths:
  assumes "serializeAccountTransactionHeader h n energy = Inr hb"
  shows "0 \<le> nonce h \<and> nonce h < 2 ^ 64 \<and> 0 \<le> energy \<and> energy < 2 ^ 64 \<and> n < 2 ^ 32 \<and>
         0 \<le> expiryEpochSeconds (expiry h) \<and> expiryEpochSeconds (expiry h) < 2 ^ 64"
proof (rule ccontr)
  assume "\<not> ?thesis"
  then have "nonce h < 0 \<or> 2 ^ 64 \<le> nonce h \<or> energy < 0 \<or> 2 ^ 64 \<le> energy \<or> 2 ^ 32 \<le> n \<or>
           expiryEpochSeconds (expiry h) < 0 \<or> 2 ^ 64 \<le> expiryEpochSeconds (expiry h)"
    by linarith
  from header_out_of_width [OF this] assms show False
    by simp
qed

lemma header_error_origin:
  assumes "serializeAccountTransactionHeader h n energy = Inl e"
  shows "encodeWord64 (nonce h) = Inl e \<or> encodeWord64 energy = Inl e \<or>
         encodeWord32 (Finite (real n)) = Inl e \<or>
         encodeWord64 (expiryEpochSeconds (expiry h)) = Inl e"
  using assms
  by (auto simp: serializeAccountTransactionHeader_def Let_def bind_eq_Inl)

lemma assemble_Inr_widths:
  assumes "serializeAccountTransaction env tx sigs = Inr out"
    and "distinct (map fst sigs)" and "\<forall>(k, c) \<in> set sigs. distinct (map fst c)"
  shows "AccountTransactionKind env \<le> 255 \<and> sigs \<noteq> [] \<and> length sigs \<le> 255 \<and>
         (\<forall>(k, c) \<in> set sigs. k \<le> 255 \<and> length c \<le> 255 \<and>
            (\<forall>(j, s) \<in> set c. j \<le> 255 \<and> length (Buffer_from_hex s) \<le> 65535)) \<and>
         (\<exists>h p. getAccountTransactionHandler env (type tx) = Inr h \<and>
            serialize h (payload tx) = Inr p \<and>
            0 \<le> nonce (header tx) \<and> nonce (header tx) < 2 ^ 64 \<and>
            0 \<le> calculateEnergyCost env (countSignatures env sigs) (int (length p + 1))
                  (getBaseEnergyCost h (payload tx)) \<and>
            calculateEnergyCost env (countSignatures env sigs) (int (length p + 1))
                  (getBaseEnergyCost h (payload tx)) < 2 ^ 64 \<and>
            length p + 1 < 2 ^ 32 \<and>
            0 \<le> expiryEpochSeconds (expiry (header tx)) \<and>
            expiryEpochSeconds (expiry (header tx)) < 2 ^ 64)"
proof -
  from assemble_Inr [OF assms(1)] obtain kb sb h p hb where
    kind: "encodeWord8 (Finite (real (AccountTransactionKind env))) = Inr kb"
    and block: "serializeAccountTransactionSignature sigs = Inr sb"
    and steps: "getAccountTransactionHandler env (type tx) = Inr h"
      "serialize h (payload tx) = Inr p"
    and hb: "serializeAccountTransactionHeader (header tx) (length p + 1)
             (calculateEnergyCost env (countSignatures env sigs) (int (length p + 1))
                (getBaseEnergyCost h (payload tx))) = Inr hb"
    by blast
  have "AccountTransactionKind env \<le> 255"
    using kind by (rule encodeWord8_nat_Inr)
  moreover note signature_block_Inr [OF block assms(2,3)]
  moreover have "\<exists>h p. getAccountTransactionHandler env (type tx) = Inr h \<and>
            serialize h (payload tx) = Inr p \<and>
            0 \<le> nonce (header tx) \<and> nonce (header tx) < 2 ^ 64 \<and>
            0 \<le> calculateEnergyCost env (countSignatures env sigs) (int (length p + 1))
                  (getBaseEnergyCost h (payload tx)) \<and>
            calculateEnergyCost env (countSignatures env sigs) (int (length p + 1))
                  (getBaseEnergyCost h (payload tx)) < 2 ^ 64 \<and>
            length p + 1 < 2 ^ 32 \<and>
            0 \<le> expiryEpochSeconds (expiry (header tx)) \<and>
            expiryEpochSeconds (expiry (header tx)) < 2 ^ 64"
    using steps header_Inr_widths [OF hb] by blast
  ultimately show ?thesis by blast
qed

text \<open>
  C9. A failure of any step of the encoding is the result of the whole, unchanged, and no
  bytes are returned then. \<open>serializeAccountTransaction\<close> fails with an error exactly when
  its first failing step (the kind byte, the signature block, the handler lookup, the
  payload, the header) fails with that error, and the hash and the submission bytes fail
  with the same error. An error of the signature block or of the header is the error of
  one of the encoders it calls. An empty signature set is such a failure. So is every
  integer outside its width: when bytes are returned, the counts and the credential and
  key indices are at most 255, every signature has at most 65535 decoded bytes, and the
  nonce, the energy and the expiry fit 64 bits and the payload size 32 bits. The text of a
  signature is the exception: it raises an error only when more than 65535 bytes are
  decoded from it, whatever its characters are.
\<close>

theorem errors_propagate_unchanged:
  "(\<forall>e. serializeAccountTransaction env tx sigs = Inl e \<longleftrightarrow>
      encodeWord8 (Finite (real (AccountTransactionKind env))) = Inl e \<or>
      (\<exists>kb. encodeWord8 (Finite (real (AccountTransactionKind env))) = Inr kb \<and>
        (serializeAccountTransactionSignature sigs = Inl e \<or>
         (\<exists>sb. serializeAccountTransactionSignature sigs = Inr sb \<and>
           (getAccountTransactionHandler env (type tx) = Inl e \<or>
            (\<exists>h. getAccountTransactionHandler env (type tx) = Inr h \<and>
              (serialize h (payload tx) = Inl e \<or>
               (\<exists>p. serialize h (payload tx) = Inr p \<and>
                  serializeAccountTransactionHeader (header tx) (length p + 1)
                    (calculateEnergyCost env (countSignatures env sigs)
                       (int (length p + 1)) (getBaseEnergyCost h (payload tx))) =
                  Inl e)))))))) \<and>
   (\<forall>e. serializeAccountTransaction env tx sigs = Inl e \<longrightarrow>
      getAccountTransactionHash env tx sigs = Inl e \<and>
      serializeAccountTransactionForSubmission env tx sigs = Inl e) \<and>
   (\<forall>e. serializeAccountTransactionSignature sigs = Inl e \<longrightarrow>
      (sigs = [] \<and> e = Error msg_no_signatures) \<or>
      encodeWord8 (Finite (real (length sigs))) = Inl e \<or>
      (\<exists>(k, c) \<in> set sigs. encodeWord8FromString k = Inl e \<or>
         encodeWord8 (Finite (real (length c))) = Inl e \<or>
         (\<exists>(j, s) \<in> set c. encodeWord8FromString j = Inl e \<or> putSignature s = Inl e))) \<and>
   (\<forall>h n energy e. serializeAccountTransactionHeader h n energy = Inl e \<longrightarrow>
      encodeWord64 (nonce h) = Inl e \<or> encodeWord64 energy = Inl e \<or>
      encodeWord32 (Finite (real n)) = Inl e \<or>
      encodeWord64 (expiryEpochSeconds (expiry h)) = Inl e) \<and>
   (AccountTransactionKind env \<le> 255 \<longrightarrow>
      serializeAccountTransaction env tx [] = Inl (Error msg_no_signatures)) \<and>
   (\<forall>out. serializeAccountTransaction env tx sigs = Inr out \<and>
      distinct (map fst sigs) \<and> (\<forall>(k, c) \<in> set sigs. distinct (map fst c)) \<longrightarrow>
      AccountTransactionKind env \<le> 255 \<and> sigs \<noteq> [] \<and> length sigs \<le> 255 \<and>
      (\<forall>(k, c) \<in> set sigs. k \<le> 255 \<and> length c \<le> 255 \<and>
         (\<forall>(j, s) \<in> set c. j \<le> 255 \<and> length (Buffer_from_hex s) \<le> 65535)) \<and>
      (\<exists>h p. getAccountTransactionHandler env (type tx) = Inr h \<and>
         serialize h (payload tx) = Inr p \<and>
         0 \<le> nonce (header tx) \<and> nonce (header tx) < 2 ^ 64 \<and>
         0 \<le> calculateEnergyCost env (countSignatures env sigs) (int (length p + 1))
               (getBaseEnergyCost h (payload tx)) \<and>
         calculateEnergyCost env (countSignatures env sigs) (int (length p + 1))
               (getBaseEnergyCost h (payload tx)) < 2 ^ 64 \<and>
         length p + 1 < 2 ^ 32 \<and>
         0 \<le> expiryEpochSeconds (expiry (header tx)) \<and>
         expiryEpochSeconds (expiry (header tx)) < 2 ^ 64)) \<and>
   (\<forall>s. (\<exists>e. putSignature s = Inl e) \<longleftrightarrow> 65535 < length (Buffer_from_hex s))"
proof (intro conjI)
  show "\<forall>e. serializeAccountTransaction env tx sigs = Inl e \<longleftrightarrow>
      encodeWord8 (Finite (real (AccountTransactionKind env))) = Inl e \<or>
      (\<exists>kb. encodeWord8 (Finite (real (AccountTransactionKind env))) = Inr kb \<and>
        (serializeAccountTransactionSignature sigs = Inl e \<or>
         (\<exists>sb. serializeAccountTransactionSignature sigs = Inr sb \<and>
           (getAccountTransactionHandler env (type tx) = Inl e \<or>
            (\<exists>h. getAccountTransactionHandler env (type tx) = Inr h \<and>
              (serialize h (payload tx) = Inl e \<or>
               (\<exists>p. serialize h (payload tx) = Inr p \<and>
                  serializeAccountTransactionHeader (header tx) (length p + 1)
                    (calculateEnergyCost env (countSignatures env sigs)
                       (int (length p + 1)) (getBaseEnergyCost h (payload tx))) =
                  Inl e)))))))"
    by (intro allI) (rule assemble_Inl_iff)
next
  show "\<forall>e. serializeAccountTransaction env tx sigs = Inl e \<longrightarrow>
      getAccountTransactionHash env tx sigs = Inl e \<and>
      serializeAccountTransactionForSubmission env tx sigs = Inl e"
    by (simp add: getAccountTransactionHash_def serializeAccountTransactionForSubmission_def)
next
  show "\<forall>e. serializeAccountTransactionSignature sigs = Inl e \<longrightarrow>
      (sigs = [] \<and> e = Error msg_no_signatures) \<or>
      encodeWord8 (Finite (real (length sigs))) = Inl e \<or>
      (\<exists>(k, c) \<in> set sigs. encodeWord8FromString k = Inl e \<or>
         encodeWord8 (Finite (real (length c))) = Inl e \<or>
         (\<exists>(j, s) \<in> set c. encodeWord8FromString j = Inl e \<or> putSignature s = Inl e))"
    by (intro allI impI) (rule signature_block_error)
next
  show "\<forall>h n energy e. serializeAccountTransactionHeader h n energy = Inl e \<longrightarrow>
      encodeWord64 (nonce h) = Inl e \<or> encodeWord64 energy = Inl e \<or>
      encodeWord32 (Finite (real n)) = Inl e \<or>
      encodeWord64 (expiryEpochSeconds (expiry h)) = Inl e"
    by (intro allI impI) (rule header_error_origin)
next
  show "AccountTransactionKind env \<le> 255 \<longrightarrow>
      serializeAccountTransaction env tx [] = Inl (Error msg_no_signatures)"
    by (intro impI) (rule assemble_no_signatures)
next
  show "\<forall>out. serializeAccountTransaction env tx sigs = Inr out \<and>
      distinct (map fst sigs) \<and> (\<forall>(k, c) \<in> set sigs. distinct (map fst c)) \<longrightarrow>
      AccountTransactionKind env \<le> 255 \<and> sigs \<noteq> [] \<and> length sigs \<le> 255 \<and>
      (\<forall>(k, c) \<in> set sigs. k \<le> 255 \<and> length c \<le> 255 \<and>
         (\<forall>(j, s) \<in> set c. j \<le> 255 \<and> length (Buffer_from_hex s) \<le> 65535)) \<and>
      (\<exists>h p. getAccountTransactionHandler env (type tx) = Inr h \<and>
         serialize h (payload tx) = Inr p \<and>
         0 \<le> nonce (header tx) \<and> nonce (header tx) < 2 ^ 64 \<and>
         0 \<le> calculateEnergyCost env (countSignatures env sigs) (int (length p + 1))
               (getBaseEnergyCost h (payload tx)) \<and>
         calculateEnergyCost env (countSignatures env sigs) (int (length p + 1))
               (getBaseEnergyCost h (payload tx)) < 2 ^ 64 \<and>
         length p + 1 < 2 ^ 32 \<and>
         0 \<le> expiryEpochSeconds (expiry (header tx)) \<and>
         expiryEpochSeconds (expiry (header tx)) < 2 ^ 64)"
  proof (intro allI impI)
    fix out
    assume h: "serializeAccountTransaction env tx sigs = Inr out \<and>
      distinct (map fst sigs) \<and> (\<forall>(k, c) \<in> set sigs. distinct (map fst c))"
    then have "serializeAccountTransaction env tx sigs = Inr out"
      and "distinct (map fst sigs)" and "\<forall>(k, c) \<in> set sigs. distinct (map fst c)"
      by simp_all
    then show "AccountTransactionKind env \<le> 255 \<and> sigs \<noteq> [] \<and> length sigs \<le> 255 \<and>
      (\<forall>(k, c) \<in> set sigs. k \<le> 255 \<and> length c \<le> 255 \<and>
         (\<forall>(j, s) \<in> set c. j \<le> 255 \<and> length (Buffer_from_hex s) \<le> 65535)) \<and>
      (\<exists>h p. getAccountTransactionHandler env (type tx) = Inr h \<and>
         serialize h (payload tx) = Inr p \<and>
         0 \<le> nonce (header tx) \<and> nonce (header tx) < 2 ^ 64 \<and>
         0 \<le> calculateEnergyCost env (countSignatures env sigs) (int (length p + 1))
               (getBaseEnergyCost h (payload tx)) \<and>
         calculateEnergyCost env (countSignatures env sigs) (int (length p + 1))
               (getBaseEnergyCost h (payload tx)) < 2 ^ 64 \<and>
         length p + 1 < 2 ^ 32 \<and>
         0 \<le> expiryEpochSeconds (expiry (header tx)) \<and>
         expiryEpochSeconds (expiry (header tx)) < 2 ^ 64)"
      by (rule assemble_Inr_widths)
  qed
next
  show "\<forall>s. (\<exists>e. putSignature s = Inl e) \<longleftrightarrow> 65535 < length (Buffer_from_hex s)"
    by (intro allI) (rule putSignature_fails_iff)
qed

lemma signatures_index_256:
  "serializeAccountTransactionSignature [(0, [(256, ''aa'')])] = Inl (Error msg_word16)"
  by (simp add: sig_eval map_eval word_eval Let_def)

theorem errors_propagate_unchanged_witness:
  "serializeAccountTransaction example_collaborators example_transaction [] =
     Inl (Error msg_no_signatures) \<and>
   getAccountTransactionHash example_collaborators example_transaction [] =
     Inl (Error msg_no_signatures) \<and>
   serializeAccountTransactionForSubmission example_collaborators example_transaction [] =
     Inl (Error msg_no_signatures) \<and>
   serializeAccountTransaction example_collaborators example_transaction
     [(0, [(256, ''aa'')])] = Inl (Error msg_word16) \<and>
   getAccountTransactionHash example_collaborators example_transaction
     [(0, [(256, ''aa'')])] = Inl (Error msg_word16) \<and>
   serializeAccountTransactionForSubmission example_collaborators example_transaction
     [(0, [(256, ''aa'')])] = Inl (Error msg_word16) \<and>
   serializeAccountTransaction example_collaborators
     (example_transaction\<lparr>header := (header example_transaction)\<lparr>nonce := - 1\<rparr>\<rparr>)
     [(0, [(0, ''aa'')])] = Inl (Error msg_word64)"
proof -
  have kind: "AccountTransactionKind example_collaborators \<le> 255"
    and kb: "encodeWord8 (Finite (real (AccountTransactionKind example_collaborators))) = Inr [1]"
    by (simp_all add: example_collaborators_def encodeWord8_def)
  note empty = errors_propagate_unchanged [of example_collaborators example_transaction "[]"]
  from empty kind
  have a: "serializeAccountTransaction example_collaborators example_transaction [] =
     Inl (Error msg_no_signatures)"
    by blast
  with empty
  have b: "getAccountTransactionHash example_collaborators example_transaction [] =
     Inl (Error msg_no_signatures) \<and>
   serializeAccountTransactionForSubmission example_collaborators example_transaction [] =
     Inl (Error msg_no_signatures)"
    by blast
  note index = errors_propagate_unchanged [of example_collaborators example_transaction
      "[(0, [(256, ''aa'')])]"]
  from index kb signatures_index_256
  have c: "serializeAccountTransaction example_collaborators example_transaction
     [(0, [(256, ''aa'')])] = Inl (Error msg_word16)"
    by blast
  with index
  have d: "getAccountTransactionHash example_collaborators example_transaction
     [(0, [(256, ''aa'')])] = Inl (Error msg_word16) \<and>
   serializeAccountTransactionForSubmission example_collaborators example_transaction
     [(0, [(256, ''aa'')])] = Inl (Error msg_word16)"
    by blast
  have e: "serializeAccountTransaction example_collaborators
     (example_transaction\<lparr>header := (header example_transaction)\<lparr>nonce := - 1\<rparr>\<rparr>)
     [(0, [(0, ''aa'')])] = Inl (Error msg_word64)"
    by (simp add: tx_eval signatures_example word_eval)
  from a b c d e show ?thesis by simp
qed

theorem invalid_hex_signature_counterexample:
  "\<not> list_all isHexDigit ''aazz'' \<and>
   serializeAccountTransaction example_collaborators example_transaction
     [(0, [(0, ''aazz'')])] =
     Inr ([1] @ [1, 0, 1, 0, 0, 1, 0xAA] @
          (replicate 32 0 @ [0, 0, 0, 0, 0, 0, 0, 1] @ [0, 0, 0, 0, 0, 0, 1, 207] @
           [0, 0, 0, 3] @ [0, 0, 0, 0, 0, 0, 0, 100]) @
          [3] @ [0x0A, 0x0B])"
proof -
  have "serializeAccountTransactionSignature [(0, [(0, ''aazz'')])] =
          Inr [1, 0, 1, 0, 0, 1, 0xAA]"
    by (simp add: sig_eval map_eval word_eval hex_eval Let_def)
  then show ?thesis
    by (simp add: tx_eval word_eval isHexDigit_def hexDigitValue_def)
qed

end
